theory Spec2Isabelle
  imports Complex_Main "HOL-Library.Sublist"
begin

section \<open>Data model\<close>

text \<open>
  The TypeScript sources describe their data with interfaces (\<open>types.ts\<close>,
  \<open>fiboService.ts\<close>, \<open>datadogService.ts\<close>).  Each interface becomes a record.

  A JavaScript string is modelled as a \<open>string\<close>: a list of code units below 256
  (ASCII and Latin-1), so that \<open>length\<close> is the \<open>.length\<close> of the source.  A JavaScript
  number is an IEEE 754 double; it is modelled by the real number it denotes, and the
  rounding of literals and of sums is modelled by \<open>double\<close> below.

  The outfit specification is produced by \<open>JSON.parse(...) as OutfitSpec\<close>, a cast that
  checks nothing, and the code itself tests its fields for presence
  (\<open>if (outfitSpec.camera)\<close>, \<open>spec.camera?.angle\<close>).  So every field of the specification
  and of its parts is optional in the model: \<open>None\<close> is a field that is not there
  (\<open>undefined\<close>; a JSON \<open>null\<close> takes the same branch at every test the modelled code
  makes).  A field that is there has its declared type.  \<open>FIBOOutfitSpec\<close> extends
  \<open>OutfitSpec\<close> by optional camera fields, \<open>style_parameters\<close> and
  \<open>fibo_structured_params\<close>; one record serves both, as the source passes a
  \<open>FIBOOutfitSpec\<close> where an \<open>OutfitSpec\<close> is expected.
\<close>

record OutfitParams =
  occasion :: string
  weather :: string
  mood :: string
  style :: string

record Weather =
  temperature :: "real option"
  conditions :: "string option"

record HexRole =
  hex :: "string option"
  role :: "string option"

record ColorScheme =
  primary :: "HexRole option"
  accent :: "HexRole option"

record TextureLayer =
  material :: "string option"
  weight :: "string option"
  sheen :: "real option"

record CameraConfig =
  angle :: "string option"
  lighting :: "string option"
  fov :: "real option"
  lighting_temperature :: "real option"

record StyleParameters =
  realism :: "real option"
  aesthetic :: "string option"

text \<open>
  \<open>FIBOParameters\<close> is built by \<open>generateFIBOOutfit\<close> from fields of the parsed
  specification; the fields it copies without a default keep their optional type.
\<close>

record FIBOParameters =
  fp_prompt :: string
  fp_camera_angle :: "string option"
  fp_camera_fov :: real
  fp_lighting_type :: "string option"
  fp_lighting_temperature :: real
  fp_style_realism :: "real option"
  fp_style_aesthetic :: "string option"
  fp_materials_primary :: string
  fp_materials_secondary :: string
  fp_colors_palette :: "string option list"
  fp_colors_harmony :: string

record OutfitSpec =
  occasion :: "string option"
  weather :: "Weather option"
  color_scheme :: "ColorScheme option"
  texture_layers :: "TextureLayer list option"
  camera :: "CameraConfig option"
  style_parameters :: "StyleParameters option"
  description :: "string option"
  fibo_structured_params :: "FIBOParameters option"

section \<open>JavaScript numbers\<close>

text \<open>
  A finite double is a multiple of a power of two with a mantissa of 53 bits.  The doubles
  with \<open>2 ^ e \<le> \<bar>x\<bar> < 2 ^ (e + 1)\<close> are the multiples of \<open>2 ^ (e - 52)\<close>, the unit
  in the last place of that range.  \<open>double x\<close> is the double nearest to \<open>x\<close>, the
  one with the even mantissa when two are equally near: the rounding that JavaScript
  applies to a decimal literal and to the exact result of \<open>+\<close>.  Overflow, subnormal
  numbers and \<open>NaN\<close> are not modelled; the numbers of the scorer lie between 0.05 and 1.
\<close>

definition round_half_even :: "real \<Rightarrow> int" where
  "round_half_even y =
     (let f = \<lfloor>y\<rfloor> in
      if y - of_int f < 1 / 2 then f
      else if 1 / 2 < y - of_int f then f + 1
      else if even f then f else f + 1)"

definition ulp :: "real \<Rightarrow> real" where
  "ulp x = 2 powr (of_int \<lfloor>log 2 \<bar>x\<bar>\<rfloor> - 52)"

definition double :: "real \<Rightarrow> real" where
  "double x = (if x = 0 then 0 else of_int (round_half_even (x / ulp x)) * ulp x)"

text \<open>\<open>a + b\<close> on numbers: the exact sum, rounded.\<close>

definition js_add :: "real \<Rightarrow> real \<Rightarrow> real" where
  "js_add a b = double (a + b)"

section \<open>Quality scorer\<close>

text \<open>
  \<open>calculateQualityScore\<close> of \<open>UnifiedAIFashionPlatform\<close>.  The argument is
  \<open>outfitSpec?: FIBOOutfitSpec\<close>; \<open>None\<close> is the call without a specification.
  The four tests are JavaScript truthiness tests: an object or an array is truthy when it
  is there, a string when it is there and not empty.  A literal \<open>0.7\<close> of the source is
  the number \<open>double 0.7\<close>, and \<open>score += 0.1\<close> is \<open>js_add score (double 0.1)\<close>;
  \<open>0\<close> and \<open>1.0\<close> are doubles as they are.
\<close>

definition calculateQualityScore :: "OutfitSpec option \<Rightarrow> real" where
  "calculateQualityScore outfitSpec =
     (case outfitSpec of
        None \<Rightarrow> 0
      | Some s \<Rightarrow>
          (let score = double 0.7;
               score = (if color_scheme s \<noteq> None then js_add score (double 0.1) else score);
               score = (if (case texture_layers s of None \<Rightarrow> False | Some ls \<Rightarrow> length ls > 0)
                        then js_add score (double 0.1) else score);
               score = (if camera s \<noteq> None then js_add score (double 0.05) else score);
               score = (if (case description s of None \<Rightarrow> False
                            | Some d \<Rightarrow> d \<noteq> [] \<and> length d > 50)
                        then js_add score (double 0.05) else score)
           in min score 1))"

text \<open>The threshold \<open>QUALITY_THRESHOLDS.ACCEPTABLE\<close> of \<open>serviceConstants.ts\<close>.\<close>

definition QUALITY_THRESHOLDS_ACCEPTABLE :: real where
  "QUALITY_THRESHOLDS_ACCEPTABLE = double 0.7"

subsection \<open>The scorer as the specification words it\<close>

text \<open>
  The four presence checks named by the specification, and the score as a base of 0.7
  to which one increment after the other is added when its check holds, in the order
  of the specification, capped at 1.  The numbers and the additions are those of the
  program.  \<open>decimal_score\<close> is the same sum in exact decimal arithmetic.
\<close>

definition color_scheme_present :: "OutfitSpec \<Rightarrow> bool" where
  "color_scheme_present s = (color_scheme s \<noteq> None)"

definition texture_layers_nonempty :: "OutfitSpec \<Rightarrow> bool" where
  "texture_layers_nonempty s = (case texture_layers s of None \<Rightarrow> False | Some ls \<Rightarrow> ls \<noteq> [])"

definition camera_present :: "OutfitSpec \<Rightarrow> bool" where
  "camera_present s = (camera s \<noteq> None)"

definition description_long :: "OutfitSpec \<Rightarrow> bool" where
  "description_long s = (case description s of None \<Rightarrow> False | Some d \<Rightarrow> length d > 50)"

definition plus_if :: "real \<Rightarrow> bool \<Rightarrow> real \<Rightarrow> real" where
  "plus_if score b x = (if b then js_add score x else score)"




text \<open>
  The sixteen doubles that the score can take, by the four checks; that the scorer
  returns them is proved below.  \<open>7205759403792793 / 2 ^ 53\<close> prints as
  \<open>0.7999999999999999\<close>, and \<open>2026619832316723 / 2 ^ 51\<close> as \<open>0.8999999999999999\<close>.
\<close>

definition score_table :: "bool \<Rightarrow> bool \<Rightarrow> bool \<Rightarrow> bool \<Rightarrow> real" where
  "score_table c1 c2 c3 c4 =
     (if c1
       then (if c2
             then (if c3
                   then (if c4
                         then 1
                         else 4278419646001971 / 4503599627370496)
                   else (if c4
                         then 4278419646001971 / 4503599627370496
                         else 2026619832316723 / 2251799813685248))
             else (if c3
                   then (if c4
                         then 8106479329266893 / 9007199254740992
                         else 7656119366529843 / 9007199254740992)
                   else (if c4
                         then 7656119366529843 / 9007199254740992
                         else 7205759403792793 / 9007199254740992)))
       else (if c2
             then (if c3
                   then (if c4
                         then 8106479329266893 / 9007199254740992
                         else 7656119366529843 / 9007199254740992)
                   else (if c4
                         then 7656119366529843 / 9007199254740992
                         else 7205759403792793 / 9007199254740992))
             else (if c3
                   then (if c4
                         then 3602879701896397 / 4503599627370496
                         else 3 / 4)
                   else (if c4
                         then 3 / 4
                         else 3152519739159347 / 4503599627370496))))"

definition empty_spec :: OutfitSpec where
  "empty_spec = \<lparr> occasion = None, weather = None, color_scheme = None,
     texture_layers = None, camera = None, style_parameters = None,
     description = None, fibo_structured_params = None \<rparr>"


definition camera_only_spec :: OutfitSpec where
  "camera_only_spec =
     empty_spec\<lparr> camera := Some \<lparr> angle = Some ''front'', lighting = Some ''studio'',
       fov = None, lighting_temperature = None \<rparr> \<rparr>"


section \<open>Text helpers\<close>

text \<open>
  \<open>String.prototype.toLowerCase\<close> on code units below 256: the ASCII capitals and the
  Latin-1 capitals (\<open>0xC0\<close> to \<open>0xDE\<close> without the multiplication sign \<open>0xD7\<close>) move
  up by 32, every other unit stays.
\<close>

definition upper_case_units :: string where
  "upper_case_units = ''ABCDEFGHIJKLMNOPQRSTUVWXYZ'' @
     [CHR 0xC0, CHR 0xC1, CHR 0xC2, CHR 0xC3, CHR 0xC4, CHR 0xC5, CHR 0xC6, CHR 0xC7,
      CHR 0xC8, CHR 0xC9, CHR 0xCA, CHR 0xCB, CHR 0xCC, CHR 0xCD, CHR 0xCE, CHR 0xCF,
      CHR 0xD0, CHR 0xD1, CHR 0xD2, CHR 0xD3, CHR 0xD4, CHR 0xD5, CHR 0xD6,
      CHR 0xD8, CHR 0xD9, CHR 0xDA, CHR 0xDB, CHR 0xDC, CHR 0xDD, CHR 0xDE]"

definition lower_case_units :: string where
  "lower_case_units = ''abcdefghijklmnopqrstuvwxyz'' @
     [CHR 0xE0, CHR 0xE1, CHR 0xE2, CHR 0xE3, CHR 0xE4, CHR 0xE5, CHR 0xE6, CHR 0xE7,
      CHR 0xE8, CHR 0xE9, CHR 0xEA, CHR 0xEB, CHR 0xEC, CHR 0xED, CHR 0xEE, CHR 0xEF,
      CHR 0xF0, CHR 0xF1, CHR 0xF2, CHR 0xF3, CHR 0xF4, CHR 0xF5, CHR 0xF6,
      CHR 0xF8, CHR 0xF9, CHR 0xFA, CHR 0xFB, CHR 0xFC, CHR 0xFD, CHR 0xFE]"

definition toLowerCase_unit :: "char \<Rightarrow> char" where
  "toLowerCase_unit c =
     (case map_of (zip upper_case_units lower_case_units) c of None \<Rightarrow> c | Some l \<Rightarrow> l)"

definition toLowerCase :: "string \<Rightarrow> string" where
  "toLowerCase s = map toLowerCase_unit s"

text \<open>\<open>text.includes(keyword)\<close>: the keyword occurs in the text at some position.\<close>

fun str_includes :: "string \<Rightarrow> string \<Rightarrow> bool" where
  "str_includes [] keyword = (keyword = [])"
| "str_includes (c # cs) keyword = (prefix keyword (c # cs) \<or> str_includes cs keyword)"

text \<open>\<open>xs.join(sep)\<close> on an array of strings.\<close>

fun join :: "string \<Rightarrow> string list \<Rightarrow> string" where
  "join sep [] = []"
| "join sep [x] = x"
| "join sep (x # y # ys) = x @ sep @ join sep (y # ys)"

text \<open>
  A value interpolated into a template literal: a string is printed as it is, a field
  that is not there is printed as \<open>undefined\<close>.
\<close>

definition interpolate :: "string option \<Rightarrow> string" where
  "interpolate v = (case v of None \<Rightarrow> ''undefined'' | Some s \<Rightarrow> s)"

text \<open>
  \<open>a || b\<close> on strings and numbers: \<open>b\<close> when \<open>a\<close> is not there, is the empty
  string or is 0.
\<close>

definition or_string :: "string option \<Rightarrow> string \<Rightarrow> string" where
  "or_string v d = (case v of None \<Rightarrow> d | Some s \<Rightarrow> if s = [] then d else s)"

definition or_number :: "real option \<Rightarrow> real \<Rightarrow> real" where
  "or_number v d = (case v of None \<Rightarrow> d | Some x \<Rightarrow> if x = 0 then d else x)"

section \<open>Parameter extraction of the unified platform\<close>

text \<open>
  \<open>extractOccasion\<close> walks \<open>Object.entries(occasionMap)\<close>, which lists the keys in the
  order they are written, and returns at the first keyword found in the lower-cased text.
\<close>

definition occasionMap :: "(string \<times> string) list" where
  "occasionMap =
     [(''work'', ''work''),
      (''business'', ''business meeting''),
      (''meeting'', ''business meeting''),
      (''casual'', ''casual''),
      (''dinner'', ''dinner''),
      (''date'', ''date night''),
      (''party'', ''party''),
      (''formal'', ''formal event''),
      (''gala'', ''evening gala'')]"

fun extractOccasion_loop :: "(string \<times> string) list \<Rightarrow> string \<Rightarrow> string" where
  "extractOccasion_loop [] text = ''casual''"
| "extractOccasion_loop ((keyword, occasion_name) # entries) text =
     (if str_includes (toLowerCase text) keyword then occasion_name
      else extractOccasion_loop entries text)"

definition extractOccasion :: "string \<Rightarrow> string" where
  "extractOccasion text = extractOccasion_loop occasionMap text"

definition extractParamsFromText :: "string \<Rightarrow> OutfitParams" where
  "extractParamsFromText text =
     \<lparr> OutfitParams.occasion = extractOccasion text,
       OutfitParams.weather = ''moderate'',
       mood = ''confident'',
       style = ''modern professional'' \<rparr>"

subsection \<open>Case-insensitive occurrence, as the specification words it\<close>

text \<open>
  A keyword written in small ASCII letters occurs in a text, ignoring case, when the text
  contains a string of the same length that has, at each position, the letter of the
  keyword or its capital.  This is stated without \<open>toLowerCase\<close>.
\<close>

definition small_letters :: string where
  "small_letters = ''abcdefghijklmnopqrstuvwxyz''"

definition capital_letters :: string where
  "capital_letters = ''ABCDEFGHIJKLMNOPQRSTUVWXYZ''"

definition capital_of :: "char \<Rightarrow> char" where
  "capital_of c = (case map_of (zip small_letters capital_letters) c of None \<Rightarrow> c | Some u \<Rightarrow> u)"

definition same_ignoring_case :: "string \<Rightarrow> string \<Rightarrow> bool" where
  "same_ignoring_case v keyword = list_all2 (\<lambda>x c. x = c \<or> x = capital_of c) v keyword"

definition occurs_ignoring_case :: "string \<Rightarrow> string \<Rightarrow> bool" where
  "occurs_ignoring_case keyword text = (\<exists>v. sublist v text \<and> same_ignoring_case v keyword)"

text \<open>\<open>isOutfitGenerationRequest\<close>: some intent keyword occurs in the lower-cased text.\<close>

definition generation_keywords :: "string list" where
  "generation_keywords =
     [''outfit'', ''clothes'', ''wear'', ''dress'', ''generate'', ''create'', ''style'']"

definition isOutfitGenerationRequest :: "string \<Rightarrow> bool" where
  "isOutfitGenerationRequest text =
     list_ex (\<lambda>keyword. str_includes (toLowerCase text) keyword) generation_keywords"

section \<open>Conversation history of the voice assistant\<close>

text \<open>
  \<open>VoiceFashionAssistant.conversationHistory\<close> is a \<open>Map\<close> from user ids to arrays of
  exchanges, empty when the assistant is constructed, and written by
  \<open>updateConversationHistory\<close> only.  The array is changed in place (\<open>push\<close>,
  \<open>shift\<close>) and stored back under the same key; no other reference to it outlives a
  call, so the map from user ids to lists is the whole state.  The time stamp
  \<open>new Date().toISOString()\<close> is an input.
\<close>

record Exchange =
  user :: string
  assistant :: string
  timestamp :: string

type_synonym ConversationHistory = "string \<rightharpoonup> Exchange list"

definition getConversationContext :: "ConversationHistory \<Rightarrow> string \<Rightarrow> Exchange list" where
  "getConversationContext conversationHistory userId =
     (case conversationHistory userId of None \<Rightarrow> [] | Some history \<Rightarrow> history)"

definition updateConversationHistory ::
  "ConversationHistory \<Rightarrow> string \<Rightarrow> string \<Rightarrow> string \<Rightarrow> string \<Rightarrow> ConversationHistory" where
  "updateConversationHistory conversationHistory userId userMessage assistantMessage now =
     (let history = (case conversationHistory userId of None \<Rightarrow> [] | Some h \<Rightarrow> h);
          history = history @ [\<lparr> user = userMessage, assistant = assistantMessage,
                                 timestamp = now \<rparr>];
          history = (if length history > 10 then tl history else history)
      in conversationHistory(userId \<mapsto> history))"

text \<open>
  The histories reachable in a running assistant: the empty map of the constructor,
  followed by any sequence of updates.  An update is the tuple of the arguments of one
  call: user id, user message, assistant message, time stamp.
\<close>

type_synonym Update = "string \<times> string \<times> string \<times> string"

definition apply_update :: "ConversationHistory \<Rightarrow> Update \<Rightarrow> ConversationHistory" where
  "apply_update conversationHistory u =
     (case u of (userId, userMessage, assistantMessage, now) \<Rightarrow>
        updateConversationHistory conversationHistory userId userMessage assistantMessage now)"

definition history_after :: "Update list \<Rightarrow> ConversationHistory" where
  "history_after updates = foldl apply_update Map.empty updates"

text \<open>The exchanges of one user, oldest first, among a sequence of updates.\<close>

definition exchanges_of :: "string \<Rightarrow> Update list \<Rightarrow> Exchange list" where
  "exchanges_of userId updates =
     map (\<lambda>(u, userMessage, assistantMessage, now).
            \<lparr> user = userMessage, assistant = assistantMessage, timestamp = now \<rparr>)
         (filter (\<lambda>(u, userMessage, assistantMessage, now). u = userId) updates)"

text \<open>The last \<open>n\<close> elements of a list.\<close>

definition most_recent :: "nat \<Rightarrow> 'a list \<Rightarrow> 'a list" where
  "most_recent n xs = drop (length xs - n) xs"

text \<open>A sample run used as an instance below.\<close>

definition eleven_updates :: "Update list" where
  "eleven_updates =
     [(''u1'', ''m0'', ''a0'', ''t0''), (''u1'', ''m1'', ''a1'', ''t1''),
      (''u1'', ''m2'', ''a2'', ''t2''), (''u2'', ''x'', ''y'', ''t2''),
      (''u1'', ''m3'', ''a3'', ''t3''),
      (''u1'', ''m4'', ''a4'', ''t4''), (''u1'', ''m5'', ''a5'', ''t5''),
      (''u1'', ''m6'', ''a6'', ''t6''), (''u1'', ''m7'', ''a7'', ''t7''),
      (''u1'', ''m8'', ''a8'', ''t8''), (''u1'', ''m9'', ''a9'', ''t9''),
      (''u1'', ''m10'', ''a10'', ''t10'')]"

section \<open>Errors, model responses and telemetry\<close>

text \<open>
  What a call can throw: \<open>Error msg\<close> is \<open>new Error(msg)\<close>; \<open>TypeError p\<close> is the
  failed read of the property \<open>p\<close> on a value that is not there; \<open>SyntaxError\<close> is
  what \<open>JSON.parse\<close> throws; \<open>ApiError\<close> is a rejection of the model call (network,
  quota, safety).
\<close>

datatype js_error = Error string | TypeError string | SyntaxError string | ApiError string

text \<open>
  The response of \<open>ai.models.generateContent\<close>, as far as the code reads it: the
  \<open>text\<close> of the response and, for images, the parts of the first candidate.
\<close>

record InlineData =
  mimeType :: "string option"
  data :: "string option"

record Part =
  part_text :: "string option"
  inlineData :: "InlineData option"

record Content =
  parts :: "Part list option"

record Candidate =
  content :: "Content option"

record GenerateContentResponse =
  response_text :: "string option"
  candidates :: "Candidate list option"

text \<open>
  The model call is an input of every function that makes it: it takes the model name
  and the prompt and either rejects or resolves with a response.  \<open>JSON.parse\<close> is the
  platform's and an input too; its result is read as a specification with optional
  fields, \<open>None\<close> for the JSON value \<open>null\<close>.  A parsed value that is not an object
  reads as the specification without any field, since every property the code reads on
  it is \<open>undefined\<close>.
\<close>

type_synonym ModelCall = "string \<Rightarrow> string \<Rightarrow> js_error + GenerateContentResponse"

type_synonym JsonParse = "string \<Rightarrow> js_error + OutfitSpec option"

record GenerationTelemetry =
  input_tokens :: nat
  output_tokens :: nat
  generation_ms :: int
  model :: string
  camera_angle :: "string option"
  lighting :: "string option"
  success :: bool
  quality_score :: "real option"
  user_id :: "string option"
  endpoint :: string

text \<open>The constants of \<open>serviceConstants.ts\<close> that the services use.\<close>

definition AI_MODELS_GEMINI_FLASH :: string where
  "AI_MODELS_GEMINI_FLASH = ''gemini-2.5-flash''"

definition AI_MODELS_GEMINI_FLASH_IMAGE :: string where
  "AI_MODELS_GEMINI_FLASH_IMAGE = ''gemini-2.5-flash-image''"

definition CHARS_PER_TOKEN :: nat where
  "CHARS_PER_TOKEN = 4"

text \<open>\<open>Math.ceil(text.length / CHARS_PER_TOKEN)\<close>.\<close>

definition estimateTokens :: "string \<Rightarrow> nat" where
  "estimateTokens text = nat \<lceil>real (length text) / real CHARS_PER_TOKEN\<rceil>"

section \<open>Specification generator of the Gemini service\<close>

text \<open>The prompt of \<open>generateOutfitSpecification\<close>, a template literal.\<close>

definition spec_prompt :: "OutfitParams \<Rightarrow> string" where
  \<open>spec_prompt params =
     ''\<newline>'' @
     ''    You are the "Aurelian Engine", a high-precision fashion generation system.\<newline>'' @
     ''    Create a detailed structured JSON specification for an outfit based on these parameters:\<newline>'' @
     ''    Occasion: '' @
     OutfitParams.occasion params @
     ''\<newline>'' @
     ''    Weather: '' @
     OutfitParams.weather params @
     ''\<newline>'' @
     ''    Mood: '' @
     mood params @
     ''\<newline>'' @
     ''    Style: '' @
     style params @
     ''\<newline>'' @
     ''\<newline>'' @
     ''    Return ONLY the JSON. The JSON must adhere to this structure:\<newline>'' @
     ''    {\<newline>'' @
     ''      "occasion": string,\<newline>'' @
     ''      "weather": { "temperature": number, "conditions": string },\<newline>'' @
     ''      "color_scheme": { "primary": { "hex": string, "role": string }, "accent": { "hex": string, "role": string } },\<newline>'' @
     ''      "texture_layers": [ { "material": string, "weight": string, "sheen": number (0-1) } ],\<newline>'' @
     ''      "camera": { "angle": string, "lighting": string },\<newline>'' @
     ''      "description": string (A highly detailed visual description for an image generator)\<newline>'' @
     ''    }\<newline>'' @
     ''  ''\<close>

text \<open>
  \<open>generateOutfitSpecification\<close>.  The result is the list of telemetry records handed
  to \<open>datadogMonitor.streamLLMTelemetry\<close>, in order, and the specification returned or
  the error thrown.  \<open>startTime\<close> and \<open>now\<close> are the two readings of \<open>Date.now()\<close>
  that a call makes.  The \<open>try\<close> block is \<open>generateOutfitSpecification_try\<close>; a
  \<open>null\<close> parsed from the response makes \<open>spec.camera?.angle\<close> throw.  The \<open>catch\<close>
  block forwards the failure record and throws the error again.
  \<open>streamLLMTelemetry\<close> itself keeps the metrics in a buffer and does not throw.
\<close>

definition generateOutfitSpecification_try ::
  "JsonParse \<Rightarrow> ModelCall \<Rightarrow> int \<Rightarrow> int \<Rightarrow> string
     \<Rightarrow> GenerationTelemetry list \<times> (js_error + OutfitSpec)" where
  "generateOutfitSpecification_try JSON_parse generateContent startTime now prompt =
     (case generateContent AI_MODELS_GEMINI_FLASH prompt of
        Inl e \<Rightarrow> ([], Inl e)
      | Inr response \<Rightarrow>
          (case response_text response of
             None \<Rightarrow> ([], Inl (Error ''No JSON returned''))
           | Some text \<Rightarrow>
               if text = [] then ([], Inl (Error ''No JSON returned''))
               else
                 (case JSON_parse text of
                    Inl e \<Rightarrow> ([], Inl e)
                  | Inr None \<Rightarrow> ([], Inl (TypeError ''camera''))
                  | Inr (Some spec) \<Rightarrow>
                      ([\<lparr> input_tokens = estimateTokens prompt,
                          output_tokens = estimateTokens text,
                          generation_ms = now - startTime,
                          model = AI_MODELS_GEMINI_FLASH,
                          camera_angle = Option.bind (camera spec) angle,
                          lighting = Option.bind (camera spec) CameraConfig.lighting,
                          success = True,
                          quality_score = None,
                          user_id = None,
                          endpoint = ''outfit_specification'' \<rparr>],
                       Inr spec))))"

definition generateOutfitSpecification ::
  "JsonParse \<Rightarrow> ModelCall \<Rightarrow> int \<Rightarrow> int \<Rightarrow> OutfitParams
     \<Rightarrow> GenerationTelemetry list \<times> (js_error + OutfitSpec)" where
  "generateOutfitSpecification JSON_parse generateContent startTime now params =
     (let prompt = spec_prompt params in
      case generateOutfitSpecification_try JSON_parse generateContent startTime now prompt of
        (forwarded, Inr spec) \<Rightarrow> (forwarded, Inr spec)
      | (forwarded, Inl error) \<Rightarrow>
          (forwarded @
             [\<lparr> input_tokens = estimateTokens prompt,
                output_tokens = 0,
                generation_ms = now - startTime,
                model = AI_MODELS_GEMINI_FLASH,
                camera_angle = None,
                lighting = None,
                success = False,
                quality_score = None,
                user_id = None,
                endpoint = ''outfit_specification'' \<rparr>],
           Inl error))"

section \<open>Image generator of the Gemini service\<close>

text \<open>
  The prompt of \<open>generateOutfitImage\<close> is built before the \<open>try\<close> block.  The template
  reads, in this order, \<open>spec.description\<close>, \<open>spec.camera.lighting\<close>,
  \<open>spec.camera.angle\<close>, \<open>spec.texture_layers.map(...)\<close>,
  \<open>spec.color_scheme.primary.hex\<close> and \<open>spec.color_scheme.accent.hex\<close>; the first
  read through a field that is not there throws.
\<close>

definition material_weight :: "TextureLayer \<Rightarrow> string" where
  "material_weight t = interpolate (material t) @ '' ('' @ interpolate (weight t) @ '')''"

definition imagePrompt :: "OutfitSpec \<Rightarrow> js_error + string" where
  \<open>imagePrompt spec =
     (case camera spec of
        None \<Rightarrow> Inl (TypeError ''lighting'')
      | Some cam \<Rightarrow>
     (case texture_layers spec of
        None \<Rightarrow> Inl (TypeError ''map'')
      | Some layers \<Rightarrow>
     (case color_scheme spec of
        None \<Rightarrow> Inl (TypeError ''primary'')
      | Some cs \<Rightarrow>
     (case primary cs of
        None \<Rightarrow> Inl (TypeError ''hex'')
      | Some p \<Rightarrow>
     (case accent cs of
        None \<Rightarrow> Inl (TypeError ''hex'')
      | Some a \<Rightarrow>
        Inr (''\<newline>'' @
          ''    Professional high-fashion photography.\<newline>'' @
          ''    '' @
          interpolate (description spec) @
          ''.\<newline>'' @
          ''    Lighting: '' @
          interpolate (CameraConfig.lighting cam) @
          ''.\<newline>'' @
          ''    Camera Angle: '' @
          interpolate (angle cam) @
          ''.\<newline>'' @
          ''    Materials: '' @
          join '', '' (map material_weight layers) @
          ''.\<newline>'' @
          ''    Colors: Primary '' @
          interpolate (hex p) @
          '', Accent '' @
          interpolate (hex a) @
          ''.\<newline>'' @
          ''    Photorealistic, 8k, highly detailed texture.\<newline>'' @
          ''  ''))))))\<close>

definition placeholder_url :: string where
  "placeholder_url = ''https://picsum.photos/800/1000?grayscale''"

text \<open>
  \<open>response.candidates?.[0]?.content?.parts || []\<close>, and the loop that returns at the
  first part with inline data.
\<close>

definition first_candidate_parts :: "GenerateContentResponse \<Rightarrow> Part list" where
  "first_candidate_parts response =
     (case candidates response of
        None \<Rightarrow> []
      | Some [] \<Rightarrow> []
      | Some (c # cs) \<Rightarrow>
          (case content c of
             None \<Rightarrow> []
           | Some ct \<Rightarrow> (case parts ct of None \<Rightarrow> [] | Some ps \<Rightarrow> ps)))"

fun first_inline_image :: "Part list \<Rightarrow> js_error + string" where
  "first_inline_image [] = Inl (Error ''No image data returned'')"
| "first_inline_image (part # rest) =
     (case inlineData part of
        Some d \<Rightarrow> Inr (''data:image/png;base64,'' @ interpolate (data d))
      | None \<Rightarrow> first_inline_image rest)"

definition generateOutfitImage_try :: "ModelCall \<Rightarrow> string \<Rightarrow> js_error + string" where
  "generateOutfitImage_try generateContent prompt =
     (case generateContent AI_MODELS_GEMINI_FLASH_IMAGE prompt of
        Inl e \<Rightarrow> Inl e
      | Inr response \<Rightarrow> first_inline_image (first_candidate_parts response))"

definition generateOutfitImage :: "ModelCall \<Rightarrow> OutfitSpec \<Rightarrow> js_error + string" where
  "generateOutfitImage generateContent spec =
     (case imagePrompt spec of
        Inl e \<Rightarrow> Inl e
      | Inr prompt \<Rightarrow>
          (case generateOutfitImage_try generateContent prompt of
             Inr url \<Rightarrow> Inr url
           | Inl error \<Rightarrow> Inr placeholder_url))"

section \<open>FIBO service\<close>

text \<open>The prompt of \<open>generateFIBOOutfit\<close>.\<close>

definition fibo_prompt :: "OutfitParams \<Rightarrow> string" where
  \<open>fibo_prompt params =
     ''\<newline>'' @
     ''    You are the "FIBO Engine" (Fashion Intelligence with Balanced Optimization).\<newline>'' @
     ''    Generate a highly structured outfit specification with professional-grade visual control.\<newline>'' @
     ''    \<newline>'' @
     ''    User Parameters:\<newline>'' @
     ''    - Occasion: '' @
     OutfitParams.occasion params @
     ''\<newline>'' @
     ''    - Weather: '' @
     OutfitParams.weather params @
     ''\<newline>'' @
     ''    - Mood: '' @
     mood params @
     ''\<newline>'' @
     ''    - Style: '' @
     style params @
     ''\<newline>'' @
     ''    \<newline>'' @
     ''    Create a comprehensive JSON specification with:\<newline>'' @
     ''    1. Precise camera parameters (angle: three_quarter/front/low_angle_hero, FOV: 50-90)\<newline>'' @
     ''    2. Professional lighting (type: studio/natural/rembrandt_contrast, temperature: 3000-6500K)\<newline>'' @
     ''    3. Style control (realism: 0.0-1.0, aesthetic descriptor)\<newline>'' @
     ''    4. Material specifications (primary and secondary fabrics)\<newline>'' @
     ''    5. Color harmony (palette with hex codes, harmony type: analogous/complementary/triadic)\<newline>'' @
     ''    6. Detailed texture layers with physical properties\<newline>'' @
     ''    \<newline>'' @
     ''    Return ONLY valid JSON matching the specified structure.\<newline>'' @
     ''  ''\<close>

text \<open>
  \<open>spec.texture_layers[i]?.material\<close>, and the object literal that
  \<open>generateFIBOOutfit\<close> attaches as \<open>fibo_structured_params\<close>.  Its fields are
  evaluated in the order written; the reads \<open>spec.camera.angle\<close>,
  \<open>spec.style_parameters.realism\<close>, \<open>spec.texture_layers[0]\<close>,
  \<open>spec.color_scheme.primary.hex\<close> and \<open>spec.color_scheme.accent.hex\<close> throw when the
  field they go through is not there.
\<close>

definition layer_material :: "TextureLayer list \<Rightarrow> nat \<Rightarrow> string option" where
  "layer_material layers i = (if i < length layers then material (layers ! i) else None)"

definition attach_fibo_structured_params :: "OutfitSpec \<Rightarrow> js_error + OutfitSpec" where
  "attach_fibo_structured_params spec =
     (case camera spec of
        None \<Rightarrow> Inl (TypeError ''angle'')
      | Some cam \<Rightarrow>
     (case style_parameters spec of
        None \<Rightarrow> Inl (TypeError ''realism'')
      | Some sp \<Rightarrow>
     (case texture_layers spec of
        None \<Rightarrow> Inl (TypeError ''0'')
      | Some layers \<Rightarrow>
     (case color_scheme spec of
        None \<Rightarrow> Inl (TypeError ''primary'')
      | Some cs \<Rightarrow>
     (case primary cs of
        None \<Rightarrow> Inl (TypeError ''hex'')
      | Some p \<Rightarrow>
     (case accent cs of
        None \<Rightarrow> Inl (TypeError ''hex'')
      | Some a \<Rightarrow>
        Inr (spec\<lparr> fibo_structured_params := Some
          \<lparr> fp_prompt = ''professional outfit generation'',
            fp_camera_angle = angle cam,
            fp_camera_fov = or_number (fov cam) 75,
            fp_lighting_type = CameraConfig.lighting cam,
            fp_lighting_temperature = or_number (lighting_temperature cam) 5500,
            fp_style_realism = realism sp,
            fp_style_aesthetic = aesthetic sp,
            fp_materials_primary = or_string (layer_material layers 0) ''cotton'',
            fp_materials_secondary = or_string (layer_material layers 1) ''silk'',
            fp_colors_palette = [hex p, hex a],
            fp_colors_harmony = ''analogous'' \<rparr> \<rparr>)))))))"

text \<open>
  \<open>generateFIBOOutfit\<close>: the \<open>catch\<close> block logs and throws the same error, so the
  function is its \<open>try\<close> block.
\<close>

definition generateFIBOOutfit ::
  "JsonParse \<Rightarrow> ModelCall \<Rightarrow> OutfitParams \<Rightarrow> js_error + OutfitSpec" where
  "generateFIBOOutfit JSON_parse generateContent params =
     (case generateContent AI_MODELS_GEMINI_FLASH (fibo_prompt params) of
        Inl e \<Rightarrow> Inl e
      | Inr response \<Rightarrow>
          (case response_text response of
             None \<Rightarrow> Inl (Error ''No JSON returned from FIBO engine'')
           | Some text \<Rightarrow>
               if text = [] then Inl (Error ''No JSON returned from FIBO engine'')
               else
                 (case JSON_parse text of
                    Inl e \<Rightarrow> Inl e
                  | Inr None \<Rightarrow> Inl (TypeError ''camera'')
                  | Inr (Some spec) \<Rightarrow> attach_fibo_structured_params spec)))"

section \<open>Batch runner\<close>

text \<open>
  \<open>Promise.all\<close> over the promises of one chunk resolves with the results in the order
  of the promises when all resolve, and rejects when one rejects.  Of several rejections
  JavaScript reports the one that settles first; the model reports the first in the
  order of the promises.
\<close>

fun Promise_all :: "('e + 'a) list \<Rightarrow> 'e + 'a list" where
  "Promise_all [] = Inr []"
| "Promise_all (Inl e # ps) = Inl e"
| "Promise_all (Inr x # ps) =
     (case Promise_all ps of Inl e \<Rightarrow> Inl e | Inr xs \<Rightarrow> Inr (x # xs))"

text \<open>\<open>xs.slice(a, b)\<close> for \<open>0 \<le> a \<le> b\<close>.\<close>

definition slice :: "'a list \<Rightarrow> nat \<Rightarrow> nat \<Rightarrow> 'a list" where
  "slice xs a b = take (b - a) (drop a xs)"

definition batchSize :: nat where
  "batchSize = 3"

text \<open>
  \<open>generateFIBOBatch\<close>.  The requests of a chunk are started in the order of the chunk,
  so the request at position \<open>k\<close> of the input makes the \<open>k\<close>-th model call of the
  run: the model call is indexed by that position.  The loop variable \<open>i\<close> and the
  array \<open>results\<close> are arguments of the loop.

  What the runner does besides returning is to start requests, and it starts them chunk
  by chunk: \<open>batch.map(params => generateFIBOOutfit(params))\<close> starts the requests of
  one chunk together, and \<open>await Promise.all\<close> waits for all of them before the next
  iteration.  The model keeps this effect as a log: \<open>started\<close> lists, in order, the
  chunks whose requests have been started.  The run returns the log and the results, or
  the log and the error thrown; after a chunk with a failing request no further chunk is
  started.
\<close>

function generateFIBOBatch_loop ::
  "JsonParse \<Rightarrow> (nat \<Rightarrow> ModelCall) \<Rightarrow> OutfitParams list \<Rightarrow> nat
     \<Rightarrow> OutfitParams list list \<Rightarrow> OutfitSpec list
     \<Rightarrow> OutfitParams list list \<times> (js_error + OutfitSpec list)" where
  "generateFIBOBatch_loop JSON_parse generateContent paramsArray i started results =
     (if i < length paramsArray then
        (let batch = slice paramsArray i (i + batchSize) in
         case Promise_all
                (map (\<lambda>(k, params). generateFIBOOutfit JSON_parse (generateContent k) params)
                   (enumerate i batch)) of
           Inl e \<Rightarrow> (started @ [batch], Inl e)
         | Inr batchResults \<Rightarrow>
             generateFIBOBatch_loop JSON_parse generateContent paramsArray (i + batchSize)
               (started @ [batch]) (results @ batchResults))
      else (started, Inr results))"
  by pat_completeness auto

termination
  by (relation "measure (\<lambda>(JSON_parse, generateContent, paramsArray, i, started, results).
        length paramsArray - i)")
     (auto simp: batchSize_def)

declare generateFIBOBatch_loop.simps [simp del]

definition generateFIBOBatch ::
  "JsonParse \<Rightarrow> (nat \<Rightarrow> ModelCall) \<Rightarrow> OutfitParams list
     \<Rightarrow> OutfitParams list list \<times> (js_error + OutfitSpec list)" where
  "generateFIBOBatch JSON_parse generateContent paramsArray =
     generateFIBOBatch_loop JSON_parse generateContent paramsArray 0 [] []"

section \<open>Voice assistant\<close>

text \<open>
  \<open>VoiceFashionAssistant\<close>: the flag \<open>enabled\<close> and the conversation history are its
  state.  \<open>speechToText\<close> and \<open>textToSpeech\<close> are simulations that return fixed
  values; \<open>generateResponse\<close> asks the model and falls back to a fixed sentence when
  the response has no text or the call rejects.
\<close>

record VoiceResponse =
  audio :: string
  voice_text :: string
  voice_id :: string

record VoiceFashionAssistant =
  enabled :: bool
  conversationHistory :: ConversationHistory

definition conversation_context :: "Exchange list \<Rightarrow> string" where
  "conversation_context context =
     join ''\<newline>\<newline>''
       (map (\<lambda>c. ''User: '' @ user c @ ''\<newline>'' @ ''Assistant: '' @ assistant c) context)"

definition response_prompt :: "string \<Rightarrow> Exchange list \<Rightarrow> string" where
  \<open>response_prompt userMessage context =
     ''\<newline>'' @
     ''You are Aria, a professional fashion stylist with 10 years of experience.\<newline>'' @
     ''You are warm, knowledgeable, and encouraging. Your style is classic with modern twists.\<newline>'' @
     ''\<newline>'' @
     ''Previous conversation:\<newline>'' @
     conversation_context context @
     ''\<newline>'' @
     ''\<newline>'' @
     ''User's latest message: '' @
     userMessage @
     ''\<newline>'' @
     ''\<newline>'' @
     ''Provide specific, actionable fashion advice. Ask clarifying questions about occasion, weather, and personal style when needed.\<newline>'' @
     ''Suggest complete outfits, not just individual pieces. Always mention why each suggestion works.\<newline>'' @
     ''\<newline>'' @
     ''Keep your response conversational and natural, as it will be spoken aloud.\<newline>'' @
     ''    ''\<close>

definition generateResponse :: "ModelCall \<Rightarrow> string \<Rightarrow> Exchange list \<Rightarrow> string" where
  "generateResponse generateContent userMessage context =
     (case generateContent ''gemini-2.5-flash'' (response_prompt userMessage context) of
        Inl e \<Rightarrow>
          ''I'' @ [CHR 0x27] @ ''d be happy to help you with your outfit selection. '' @
          ''Could you tell me more about the occasion?''
      | Inr response \<Rightarrow>
          or_string (response_text response)
            (''I'' @ [CHR 0x27] @ ''m here to help you find the perfect outfit. '' @
             ''What occasion are you dressing for?''))"

text \<open>
  \<open>voiceConversation\<close> returns the assistant after the call and the voice response.
  It makes one model call when the assistant is enabled and none otherwise, and it
  never throws.  \<open>isoNow\<close> is the time stamp \<open>new Date().toISOString()\<close>.
\<close>

definition voiceConversation ::
  "ModelCall \<Rightarrow> string \<Rightarrow> VoiceFashionAssistant \<Rightarrow> string
     \<Rightarrow> VoiceFashionAssistant \<times> VoiceResponse" where
  "voiceConversation generateContent isoNow voice userId =
     (if \<not> enabled voice then
        (voice,
         \<lparr> audio = [],
           voice_text = ''Voice assistant is not configured. '' @
                        ''Please provide an ElevenLabs API key.'',
           voice_id = ''rachel'' \<rparr>)
      else
        (let transcription = ''I need a professional outfit for a business meeting'';
             context = getConversationContext (conversationHistory voice) userId;
             responseText = generateResponse generateContent transcription context
         in (voice\<lparr> conversationHistory :=
               updateConversationHistory (conversationHistory voice) userId
                 transcription responseText isoNow \<rparr>,
             \<lparr> audio = ''base64_encoded_audio_data'',
               voice_text = responseText,
               voice_id = ''rachel'' \<rparr>)))"

section \<open>Request router of the unified platform\<close>

text \<open>
  A request carries a string or a \<open>Buffer\<close> as input, whatever its \<open>input_type\<close> says.
\<close>

datatype RequestInput = StringInput string | BufferInput string

datatype InputType = text_input | voice_input

record UnifiedRequest =
  request_user_id :: string
  request_input :: RequestInput
  request_input_type :: InputType
  request_params :: "OutfitParams option"

record UnifiedResponse =
  outfit_spec :: "OutfitSpec option"
  image_url :: "string option"
  voice_response :: "VoiceResponse option"
  text_response :: "string option"
  request_id :: string
  processing_time_ms :: int
  telemetry :: GenerationTelemetry

text \<open>
  \<open>createTelemetry\<close>.  \<open>JSON.stringify\<close> is the platform's and an input of the model.
\<close>

definition createTelemetry ::
  "(OutfitSpec \<Rightarrow> string) \<Rightarrow> UnifiedRequest \<Rightarrow> int \<Rightarrow> bool \<Rightarrow> OutfitSpec option
     \<Rightarrow> GenerationTelemetry" where
  "createTelemetry JSON_stringify request processingTime ok outfitSpec =
     \<lparr> input_tokens =
         estimateTokens (case request_input request of
                           StringInput s \<Rightarrow> s | BufferInput b \<Rightarrow> ''voice_input''),
       output_tokens =
         (case outfitSpec of None \<Rightarrow> 0 | Some spec \<Rightarrow> estimateTokens (JSON_stringify spec)),
       generation_ms = processingTime,
       model = AI_MODELS_GEMINI_FLASH,
       camera_angle = Option.bind (Option.bind outfitSpec camera) angle,
       lighting = Option.bind (Option.bind outfitSpec camera) CameraConfig.lighting,
       success = ok,
       quality_score = Some (calculateQualityScore outfitSpec),
       user_id = Some (request_user_id request),
       endpoint = ''outfit_generation'' \<rparr>"

text \<open>
  \<open>processTextInput\<close>.  Without \<open>params\<close> the parameters are extracted from the
  input, which throws when the input is a \<open>Buffer\<close> (it has no \<open>toLowerCase\<close>).  The
  function makes the model calls 0 (specification) and 1 (image) of the request.
\<close>

definition processTextInput ::
  "JsonParse \<Rightarrow> (OutfitSpec \<Rightarrow> string) \<Rightarrow> (nat \<Rightarrow> ModelCall) \<Rightarrow> int \<Rightarrow> int \<Rightarrow> string
     \<Rightarrow> UnifiedRequest \<Rightarrow> js_error + UnifiedResponse" where
  "processTextInput JSON_parse JSON_stringify generateContent startTime now requestId request =
     (case (case request_params request of
              Some p \<Rightarrow> Inr p
            | None \<Rightarrow>
                (case request_input request of
                   StringInput s \<Rightarrow> Inr (extractParamsFromText s)
                 | BufferInput b \<Rightarrow> Inl (TypeError ''toLowerCase''))) of
        Inl e \<Rightarrow> Inl e
      | Inr params \<Rightarrow>
     (case generateFIBOOutfit JSON_parse (generateContent 0) params of
        Inl e \<Rightarrow> Inl e
      | Inr outfitSpec \<Rightarrow>
     (case generateOutfitImage (generateContent 1) outfitSpec of
        Inl e \<Rightarrow> Inl e
      | Inr imageUrl \<Rightarrow>
          Inr \<lparr> outfit_spec = Some outfitSpec,
                image_url = Some imageUrl,
                voice_response = None,
                text_response = description outfitSpec,
                request_id = requestId,
                processing_time_ms = now - startTime,
                telemetry = createTelemetry JSON_stringify request (now - startTime) True
                              (Some outfitSpec) \<rparr>)))"

text \<open>
  \<open>processVoiceInput\<close>.  The voice conversation comes first and changes the
  assistant; the assistant after it is returned also when a later step throws.  The
  conversation makes model call 0 when the assistant is enabled; the specification and
  the image take the next two calls.
\<close>

definition processVoiceInput ::
  "JsonParse \<Rightarrow> (OutfitSpec \<Rightarrow> string) \<Rightarrow> (nat \<Rightarrow> ModelCall) \<Rightarrow> int \<Rightarrow> int \<Rightarrow> string
     \<Rightarrow> string \<Rightarrow> VoiceFashionAssistant \<Rightarrow> UnifiedRequest
     \<Rightarrow> VoiceFashionAssistant \<times> (js_error + UnifiedResponse)" where
  "processVoiceInput JSON_parse JSON_stringify generateContent startTime now isoNow requestId
       voice request =
     (case voiceConversation (generateContent 0) isoNow voice (request_user_id request) of
        (voice', voiceResponse) \<Rightarrow>
          (let next_call = (if enabled voice then 1 else 0);
               generated =
                 (if isOutfitGenerationRequest (voice_text voiceResponse) then
                    (case generateFIBOOutfit JSON_parse (generateContent next_call)
                            (extractParamsFromText (voice_text voiceResponse)) of
                       Inl e \<Rightarrow> Inl e
                     | Inr outfitSpec \<Rightarrow>
                         (case generateOutfitImage (generateContent (next_call + 1)) outfitSpec of
                            Inl e \<Rightarrow> Inl e
                          | Inr imageUrl \<Rightarrow> Inr (Some outfitSpec, Some imageUrl)))
                  else Inr (None, None))
           in (voice',
               case generated of
                 Inl e \<Rightarrow> Inl e
               | Inr (outfitSpec, imageUrl) \<Rightarrow>
                   Inr \<lparr> outfit_spec = outfitSpec,
                         image_url = imageUrl,
                         voice_response = Some voiceResponse,
                         text_response = Some (voice_text voiceResponse),
                         request_id = requestId,
                         processing_time_ms = now - startTime,
                         telemetry = createTelemetry JSON_stringify request (now - startTime)
                                       True outfitSpec \<rparr>)))"

text \<open>
  \<open>processUserRequest\<close>.  The two producer calls of the streaming pipeline are inputs:
  \<open>None\<close> when the call resolves, the error when it rejects.  The result is the
  assistant after the request, the records handed to \<open>streamLLMTelemetry\<close>, and the
  response returned or the error thrown.  \<open>processUserRequest_try\<close> is the \<open>try\<close>
  block up to the forwarding of the telemetry of the result.
\<close>

definition processUserRequest_try ::
  "JsonParse \<Rightarrow> (OutfitSpec \<Rightarrow> string) \<Rightarrow> (nat \<Rightarrow> ModelCall) \<Rightarrow> js_error option
     \<Rightarrow> js_error option \<Rightarrow> int \<Rightarrow> int \<Rightarrow> string \<Rightarrow> string \<Rightarrow> VoiceFashionAssistant
     \<Rightarrow> UnifiedRequest \<Rightarrow> VoiceFashionAssistant \<times> (js_error + UnifiedResponse)" where
  "processUserRequest_try JSON_parse JSON_stringify generateContent produceUserInteraction
       produceOutfitGeneration startTime now isoNow requestId voice request =
     (case produceUserInteraction of
        Some e \<Rightarrow> (voice, Inl e)
      | None \<Rightarrow>
          (case (case (request_input_type request, request_input request) of
                   (voice_input, BufferInput b) \<Rightarrow>
                     processVoiceInput JSON_parse JSON_stringify generateContent startTime now
                       isoNow requestId voice request
                 | _ \<Rightarrow>
                     (voice,
                      processTextInput JSON_parse JSON_stringify generateContent startTime now
                        requestId request)) of
             (voice', Inl e) \<Rightarrow> (voice', Inl e)
           | (voice', Inr result) \<Rightarrow>
               (case (if outfit_spec result \<noteq> None then produceOutfitGeneration else None) of
                  Some e \<Rightarrow> (voice', Inl e)
                | None \<Rightarrow> (voice', Inr result))))"

definition processUserRequest ::
  "JsonParse \<Rightarrow> (OutfitSpec \<Rightarrow> string) \<Rightarrow> (nat \<Rightarrow> ModelCall) \<Rightarrow> js_error option
     \<Rightarrow> js_error option \<Rightarrow> int \<Rightarrow> int \<Rightarrow> string \<Rightarrow> string \<Rightarrow> VoiceFashionAssistant
     \<Rightarrow> UnifiedRequest
     \<Rightarrow> VoiceFashionAssistant \<times> GenerationTelemetry list \<times> (js_error + UnifiedResponse)" where
  "processUserRequest JSON_parse JSON_stringify generateContent produceUserInteraction
       produceOutfitGeneration startTime now isoNow requestId voice request =
     (case processUserRequest_try JSON_parse JSON_stringify generateContent
             produceUserInteraction produceOutfitGeneration startTime now isoNow requestId
             voice request of
        (voice', Inr result) \<Rightarrow> (voice', [telemetry result], Inr result)
      | (voice', Inl error) \<Rightarrow>
          (voice',
           [\<lparr> input_tokens = 0,
              output_tokens = 0,
              generation_ms = now - startTime,
              model = ''gemini-2.5-flash'',
              camera_angle = None,
              lighting = None,
              success = False,
              quality_score = None,
              user_id = Some (request_user_id request),
              endpoint = ''outfit_generation'' \<rparr>],
           Inl error))"

section \<open>Conformance to the response schema, as the specification words it\<close>

text \<open>
  A colour string is a \<open>#\<close> followed by six hexadecimal digits.  A specification conforms
  when its \<open>texture_layers\<close> is a non-empty list and its \<open>color_scheme\<close> holds two such
  colour strings, the primary and the accent.
\<close>

definition hex_digit :: "char \<Rightarrow> bool" where
  "hex_digit c = (c \<in> set ''0123456789abcdefABCDEF'')"

definition valid_hex_colour :: "string \<Rightarrow> bool" where
  "valid_hex_colour s =
     (case s of [] \<Rightarrow> False | c # ds \<Rightarrow> c = CHR ''#'' \<and> length ds = 6 \<and> list_all hex_digit ds)"

definition optional_hex_valid :: "HexRole option \<Rightarrow> bool" where
  "optional_hex_valid v =
     (case v of None \<Rightarrow> False
      | Some hr \<Rightarrow> (case hex hr of None \<Rightarrow> False | Some s \<Rightarrow> valid_hex_colour s))"

definition schema_conformant :: "OutfitSpec \<Rightarrow> bool" where
  "schema_conformant spec =
     (texture_layers_nonempty spec \<and>
      (case color_scheme spec of
         None \<Rightarrow> False
       | Some cs \<Rightarrow> optional_hex_valid (primary cs) \<and> optional_hex_valid (accent cs)))"

text \<open>
  The fields that the image prompt reads through: \<open>camera\<close>, \<open>texture_layers\<close>,
  \<open>color_scheme\<close> and, in the colour scheme, \<open>primary\<close> and \<open>accent\<close>.
\<close>

definition image_fields_present :: "OutfitSpec \<Rightarrow> bool" where
  "image_fields_present spec =
     (camera spec \<noteq> None \<and> texture_layers spec \<noteq> None \<and>
      (case color_scheme spec of
         None \<Rightarrow> False
       | Some cs \<Rightarrow> primary cs \<noteq> None \<and> accent cs \<noteq> None))"

section \<open>Sample inputs\<close>

text \<open>
  The parameters of the specification's example scenario; the degree sign of the weather
  is the code unit \<open>0xB0\<close>.
\<close>

definition sample_params :: OutfitParams where
  "sample_params =
     \<lparr> OutfitParams.occasion = ''Evening Gala'',
       OutfitParams.weather = ''Cool 15'' @ [CHR 0xB0] @ ''C'',
       mood = ''Elegant'',
       style = ''Classic Evening Wear'' \<rparr>"

text \<open>A response text that follows the schema, and the specification it denotes.\<close>

definition sample_text :: string where
  \<open>sample_text =
     ''{"occasion":"evening gala",'' @
     ''"weather":{"temperature":15,"conditions":"cool"},'' @
     ''"color_scheme":{"primary":{"hex":"#1a1a1a","role":"base"},'' @
     ''"accent":{"hex":"#d4af37","role":"highlight"}},'' @
     ''"texture_layers":[{"material":"silk","weight":"light","sheen":0.5}],'' @
     ''"camera":{"angle":"front","lighting":"studio"},'' @
     ''"style_parameters":{"realism":0.75,"aesthetic":"classic"},'' @
     ''"description":"Black silk gown with gold accents"}''\<close>

definition sample_spec :: OutfitSpec where
  "sample_spec =
     \<lparr> occasion = Some ''evening gala'',
       weather = Some \<lparr> temperature = Some 15, conditions = Some ''cool'' \<rparr>,
       color_scheme = Some
         \<lparr> primary = Some \<lparr> hex = Some ''#1a1a1a'', role = Some ''base'' \<rparr>,
           accent = Some \<lparr> hex = Some ''#d4af37'', role = Some ''highlight'' \<rparr> \<rparr>,
       texture_layers = Some
         [\<lparr> material = Some ''silk'', weight = Some ''light'', sheen = Some 0.5 \<rparr>],
       camera = Some \<lparr> angle = Some ''front'', lighting = Some ''studio'',
                       fov = None, lighting_temperature = None \<rparr>,
       style_parameters = Some \<lparr> realism = Some 0.75, aesthetic = Some ''classic'' \<rparr>,
       description = Some ''Black silk gown with gold accents'',
       fibo_structured_params = None \<rparr>"

text \<open>
  \<open>JSON.parse\<close> on the three response texts of the examples: the sample text, the
  empty object \<open>{}\<close> and \<open>null\<close>.  The examples apply it to these texts only; the
  theorems hold for every parser.
\<close>

definition JSON_parse_sample :: JsonParse where
  "JSON_parse_sample text =
     (if text = sample_text then Inr (Some sample_spec)
      else if text = ''{}'' then Inr (Some empty_spec)
      else if text = ''null'' then Inr None
      else Inl (SyntaxError text))"

text \<open>Three behaviours of the model call: rejection, a response without text, a text.\<close>

definition model_rejects :: ModelCall where
  "model_rejects model_name prompt = Inl (ApiError ''quota exceeded'')"

definition model_no_text :: ModelCall where
  "model_no_text model_name prompt = Inr \<lparr> response_text = None, candidates = None \<rparr>"

definition model_returns :: "string \<Rightarrow> ModelCall" where
  "model_returns text model_name prompt = Inr \<lparr> response_text = Some text, candidates = None \<rparr>"

text \<open>
  The sample specification with the parameters that \<open>generateFIBOOutfit\<close> attaches
  to it.
\<close>

definition sample_fibo_spec :: OutfitSpec where
  "sample_fibo_spec =
     sample_spec\<lparr> fibo_structured_params := Some
       \<lparr> fp_prompt = ''professional outfit generation'',
         fp_camera_angle = Some ''front'',
         fp_camera_fov = 75,
         fp_lighting_type = Some ''studio'',
         fp_lighting_temperature = 5500,
         fp_style_realism = Some 0.75,
         fp_style_aesthetic = Some ''classic'',
         fp_materials_primary = ''silk'',
         fp_materials_secondary = ''silk'',
         fp_colors_palette = [Some ''#1a1a1a'', Some ''#d4af37''],
         fp_colors_harmony = ''analogous'' \<rparr> \<rparr>"

text \<open>
  The record that the \<open>catch\<close> block of \<open>generateOutfitSpecification\<close> forwards.
\<close>

definition failure_record :: "int \<Rightarrow> int \<Rightarrow> OutfitParams \<Rightarrow> GenerationTelemetry" where
  "failure_record startTime now params =
     \<lparr> input_tokens = estimateTokens (spec_prompt params),
       output_tokens = 0,
       generation_ms = now - startTime,
       model = AI_MODELS_GEMINI_FLASH,
       camera_angle = None,
       lighting = None,
       success = False,
       quality_score = None,
       user_id = None,
       endpoint = ''outfit_specification'' \<rparr>"

text \<open>
  Seven requests, as in the example scenario of the batch runner, and a model that
  rejects the call of the request at position 4 and answers the others with the sample
  response.
\<close>

definition fails_at_four :: "nat \<Rightarrow> ModelCall" where
  "fails_at_four k = (if k = 4 then model_rejects else model_returns sample_text)"


definition seven_requests :: "OutfitParams list" where
  "seven_requests =
     [sample_params, sample_params\<lparr> mood := ''Bold'' \<rparr>, sample_params\<lparr> mood := ''Calm'' \<rparr>,
      sample_params\<lparr> style := ''Minimalist'' \<rparr>, sample_params\<lparr> style := ''Bohemian'' \<rparr>,
      sample_params\<lparr> OutfitParams.occasion := ''Work'' \<rparr>,
      sample_params\<lparr> OutfitParams.occasion := ''Dinner'' \<rparr>]"

text \<open>
  A text request with explicit parameters, an assistant that is not configured, and a
  stand-in for \<open>JSON.stringify\<close>, which the failing instances never call.
\<close>

definition sample_request :: UnifiedRequest where
  "sample_request =
     \<lparr> request_user_id = ''user_123'',
       request_input = StringInput ''I need a professional outfit for a business meeting'',
       request_input_type = text_input,
       request_params = Some sample_params \<rparr>"

definition sample_assistant :: VoiceFashionAssistant where
  "sample_assistant = \<lparr> enabled = False, conversationHistory = Map.empty \<rparr>"

definition JSON_stringify_sample :: "OutfitSpec \<Rightarrow> string" where
  "JSON_stringify_sample spec = sample_text"

section \<open>Properties of the rounding of doubles\<close>

lemma powr_neg_nat: "(2::real) powr (- real k) = 1 / 2 ^ k"
  by (simp add: powr_minus powr_realpow inverse_eq_divide)

lemma ulp_below_one:
  assumes "1 / 2 ^ Suc n \<le> x" and "x < 1 / 2 ^ n"
  shows "ulp x = 1 / 2 ^ (n + 53)"
proof -
  have "(0::real) < 1 / 2 ^ Suc n"
    by simp
  with assms(1) have pos: "0 < x"
    by linarith
  have "(2::real) powr of_int (- int (Suc n)) = 1 / 2 ^ Suc n"
    using powr_neg_nat [of "Suc n"] by simp
  moreover have "of_int (- int (Suc n)) + 1 = - real n"
    by simp
  then have "(2::real) powr (of_int (- int (Suc n)) + 1) = 1 / 2 ^ n"
    using powr_neg_nat [of n] by simp
  ultimately have "\<lfloor>log 2 x\<rfloor> = - int (Suc n)"
    using assms pos floor_log_eq_powr_iff [of x 2 "- int (Suc n)"] by simp
  then have "ulp x = 2 powr (of_int (- int (Suc n)) - 52)"
    using pos by (simp add: ulp_def)
  moreover have "of_int (- int (Suc n)) - 52 = - real (n + 53)"
    by simp
  ultimately have "ulp x = 2 powr (- real (n + 53))"
    by (simp only:)
  then show ?thesis
    by (simp only: powr_neg_nat)
qed

text \<open>
  Rounding below 1: with \<open>1 / 2 ^ (n + 1) \<le> x < 1 / 2 ^ n\<close> the doubles around \<open>x\<close>
  are the multiples of \<open>1 / 2 ^ (n + 53)\<close>.
\<close>

lemma double_below_one:
  assumes "1 / 2 ^ Suc n \<le> x" and "x < 1 / 2 ^ n"
  shows "double x = of_int (round_half_even (x * 2 ^ (n + 53))) / 2 ^ (n + 53)"
proof -
  have "(0::real) < 1 / 2 ^ Suc n"
    by simp
  with assms(1) have "x \<noteq> 0"
    by linarith
  then show ?thesis
    by (simp add: double_def ulp_below_one [OF assms])
qed

text \<open>The three literals of the scorer, and the eight sums that it can form.\<close>

lemma double_0_7: "double 0.7 = 3152519739159347 / 4503599627370496"
  using double_below_one [of 0 "0.7"] by (simp add: round_half_even_def)

lemma double_0_1: "double 0.1 = 3602879701896397 / 36028797018963968"
  using double_below_one [of 3 "0.1"] by (simp add: round_half_even_def)

lemma double_0_05: "double 0.05 = 3602879701896397 / 72057594037927936"
  using double_below_one [of 4 "0.05"] by (simp add: round_half_even_def)

lemma add_7_1: "js_add (3152519739159347 / 4503599627370496) (3602879701896397 / 36028797018963968) = 7205759403792793 / 9007199254740992"
  unfolding js_add_def
  using double_below_one [of 0 "3152519739159347 / 4503599627370496 + 3602879701896397 / 36028797018963968"]
  by (simp add: round_half_even_def)

lemma add_8_1: "js_add (7205759403792793 / 9007199254740992) (3602879701896397 / 36028797018963968) = 2026619832316723 / 2251799813685248"
  unfolding js_add_def
  using double_below_one [of 0 "7205759403792793 / 9007199254740992 + 3602879701896397 / 36028797018963968"]
  by (simp add: round_half_even_def)

lemma add_7_05: "js_add (3152519739159347 / 4503599627370496) (3602879701896397 / 72057594037927936) = 3 / 4"
  unfolding js_add_def
  using double_below_one [of 0 "3152519739159347 / 4503599627370496 + 3602879701896397 / 72057594037927936"]
  by (simp add: round_half_even_def)

lemma add_8_05: "js_add (7205759403792793 / 9007199254740992) (3602879701896397 / 72057594037927936) = 7656119366529843 / 9007199254740992"
  unfolding js_add_def
  using double_below_one [of 0 "7205759403792793 / 9007199254740992 + 3602879701896397 / 72057594037927936"]
  by (simp add: round_half_even_def)

lemma add_9_05: "js_add (2026619832316723 / 2251799813685248) (3602879701896397 / 72057594037927936) = 4278419646001971 / 4503599627370496"
  unfolding js_add_def
  using double_below_one [of 0 "2026619832316723 / 2251799813685248 + 3602879701896397 / 72057594037927936"]
  by (simp add: round_half_even_def)

lemma add_75_05: "js_add (3 / 4) (3602879701896397 / 72057594037927936) = 3602879701896397 / 4503599627370496"
  unfolding js_add_def
  using double_below_one [of 0 "3 / 4 + 3602879701896397 / 72057594037927936"]
  by (simp add: round_half_even_def)

lemma add_85_05: "js_add (7656119366529843 / 9007199254740992) (3602879701896397 / 72057594037927936) = 8106479329266893 / 9007199254740992"
  unfolding js_add_def
  using double_below_one [of 0 "7656119366529843 / 9007199254740992 + 3602879701896397 / 72057594037927936"]
  by (simp add: round_half_even_def)

lemma add_95_05: "js_add (4278419646001971 / 4503599627370496) (3602879701896397 / 72057594037927936) = 1"
  unfolding js_add_def
  using double_below_one [of 0 "4278419646001971 / 4503599627370496 + 3602879701896397 / 72057594037927936"]
  by (simp add: round_half_even_def)


section \<open>Properties of the quality scorer\<close>

lemma score_chain_values:
  "plus_if (plus_if (plus_if (plus_if (double 0.7) c1 (double 0.1)) c2 (double 0.1))
      c3 (double 0.05)) c4 (double 0.05)
   = score_table c1 c2 c3 c4"
  unfolding double_0_7 double_0_1 double_0_05 plus_if_def score_table_def
  by (cases c1; cases c2; cases c3; cases c4;
      simp only: if_True if_False add_7_1 add_8_1 add_7_05 add_8_05 add_9_05 add_75_05
        add_85_05 add_95_05)

lemma score_table_range: "double 0.7 \<le> score_table c1 c2 c3 c4 \<and> score_table c1 c2 c3 c4 \<le> 1"
  unfolding double_0_7 score_table_def
  by (cases c1; cases c2; cases c3; cases c4; simp)

lemma score_table_mono:
  assumes "c1 \<longrightarrow> d1" and "c2 \<longrightarrow> d2" and "c3 \<longrightarrow> d3" and "c4 \<longrightarrow> d4"
  shows "score_table c1 c2 c3 c4 \<le> score_table d1 d2 d3 d4"
proof -
  have step1: "score_table False c2 c3 c4 \<le> score_table True c2 c3 c4" for c2 c3 c4
    unfolding score_table_def by (cases c2; cases c3; cases c4; simp)
  have step2: "score_table c1 False c3 c4 \<le> score_table c1 True c3 c4" for c1 c3 c4
    unfolding score_table_def by (cases c1; cases c3; cases c4; simp)
  have step3: "score_table c1 c2 False c4 \<le> score_table c1 c2 True c4" for c1 c2 c4
    unfolding score_table_def by (cases c1; cases c2; cases c4; simp)
  have step4: "score_table c1 c2 c3 False \<le> score_table c1 c2 c3 True" for c1 c2 c3
    unfolding score_table_def by (cases c1; cases c2; cases c3; simp)
  have "score_table c1 c2 c3 c4 \<le> score_table d1 c2 c3 c4"
    using assms(1) step1 [of c2 c3 c4] by (cases c1; cases d1; simp)
  also have "\<dots> \<le> score_table d1 d2 c3 c4"
    using assms(2) step2 [of d1 c3 c4] by (cases c2; cases d2; simp)
  also have "\<dots> \<le> score_table d1 d2 d3 c4"
    using assms(3) step3 [of d1 d2 c4] by (cases c3; cases d3; simp)
  also have "\<dots> \<le> score_table d1 d2 d3 d4"
    using assms(4) step4 [of d1 d2 d3] by (cases c4; cases d4; simp)
  finally show ?thesis .
qed


lemma score_present_chain:
  "calculateQualityScore (Some s) =
     min 1 (plus_if (plus_if (plus_if (plus_if (double 0.7)
              (color_scheme_present s) (double 0.1))
              (texture_layers_nonempty s) (double 0.1))
              (camera_present s) (double 0.05))
              (description_long s) (double 0.05))"
proof -
  have t: "(case texture_layers s of None \<Rightarrow> False | Some ls \<Rightarrow> length ls > 0)
             = texture_layers_nonempty s"
    by (cases "texture_layers s") (simp_all add: texture_layers_nonempty_def)
  have d: "(case description s of None \<Rightarrow> False | Some d \<Rightarrow> d \<noteq> [] \<and> length d > 50)
             = description_long s"
    by (cases "description s") (auto simp: description_long_def)
  have c: "(color_scheme s \<noteq> None) = color_scheme_present s"
    by (simp add: color_scheme_present_def)
  have k: "(camera s \<noteq> None) = camera_present s"
    by (simp add: camera_present_def)
  show ?thesis
    unfolding calculateQualityScore_def option.case Let_def t d c k plus_if_def
    by (simp only: min.commute)
qed

lemma score_present_table:
  "calculateQualityScore (Some s) =
     score_table (color_scheme_present s) (texture_layers_nonempty s) (camera_present s)
       (description_long s)"
proof -
  have "score_table (color_scheme_present s) (texture_layers_nonempty s) (camera_present s)
       (description_long s) \<le> 1"
    using score_table_range by blast
  then show ?thesis
    unfolding score_present_chain score_chain_values by (rule min_absorb2)
qed

lemma score_present_range:
  "double 0.7 \<le> calculateQualityScore (Some s) \<and> calculateQualityScore (Some s) \<le> 1"
  unfolding score_present_table by (rule score_table_range)

lemma score_mono:
  assumes "color_scheme_present s \<longrightarrow> color_scheme_present s'"
    and "texture_layers_nonempty s \<longrightarrow> texture_layers_nonempty s'"
    and "camera_present s \<longrightarrow> camera_present s'"
    and "description_long s \<longrightarrow> description_long s'"
  shows "calculateQualityScore (Some s) \<le> calculateQualityScore (Some s')"
  unfolding score_present_table using assms by (rule score_table_mono)

lemma double_0_7_positive: "0 < double 0.7"
  unfolding double_0_7 by simp



text \<open>
  Claim C6.  The score is monotonic in the four presence checks: when every check that
  holds of a specification also holds of another one (in particular when one check is
  made true and the other three stay as they are), the score of the second is not below
  the score of the first.  For every input, the absent specification included, the score
  lies between 0 and 1.
\<close>

theorem C6_quality_score_monotone_and_bounded:
  "((color_scheme_present s \<longrightarrow> color_scheme_present s') \<and>
    (texture_layers_nonempty s \<longrightarrow> texture_layers_nonempty s') \<and>
    (camera_present s \<longrightarrow> camera_present s') \<and>
    (description_long s \<longrightarrow> description_long s')
    \<longrightarrow> calculateQualityScore (Some s) \<le> calculateQualityScore (Some s')) \<and>
   0 \<le> calculateQualityScore x \<and> calculateQualityScore x \<le> 1"
proof (intro conjI impI)
  assume "(color_scheme_present s \<longrightarrow> color_scheme_present s') \<and>
    (texture_layers_nonempty s \<longrightarrow> texture_layers_nonempty s') \<and>
    (camera_present s \<longrightarrow> camera_present s') \<and>
    (description_long s \<longrightarrow> description_long s')"
  then show "calculateQualityScore (Some s) \<le> calculateQualityScore (Some s')"
    by (intro score_mono) simp_all
next
  show "0 \<le> calculateQualityScore x"
  proof (cases x)
    case None
    then show ?thesis by (simp add: calculateQualityScore_def)
  next
    case (Some t)
    have "0 \<le> double 0.7"
      using double_0_7_positive by simp
    also have "double 0.7 \<le> calculateQualityScore (Some t)"
      using score_present_range by blast
    finally show ?thesis using Some by simp
  qed
next
  show "calculateQualityScore x \<le> 1"
  proof (cases x)
    case None
    then show ?thesis by (simp add: calculateQualityScore_def)
  next
    case (Some t)
    then show ?thesis using score_present_range by blast
  qed
qed

text \<open>
  An instance: adding a camera to the specification without any field raises the score
  from \<open>double 0.7\<close> to 0.75.
\<close>

theorem C6_quality_score_monotone_witness:
  "\<not> camera_present empty_spec \<and>
   camera_present camera_only_spec \<and>
   calculateQualityScore (Some empty_spec) = double 0.7 \<and>
   calculateQualityScore (Some camera_only_spec) = 0.75 \<and>
   calculateQualityScore (Some empty_spec) \<le> calculateQualityScore (Some camera_only_spec)"
proof -
  have checks:
    "\<not> color_scheme_present empty_spec" "\<not> texture_layers_nonempty empty_spec"
    "\<not> camera_present empty_spec" "\<not> description_long empty_spec"
    "\<not> color_scheme_present camera_only_spec" "\<not> texture_layers_nonempty camera_only_spec"
    "camera_present camera_only_spec" "\<not> description_long camera_only_spec"
    by (simp_all add: color_scheme_present_def texture_layers_nonempty_def camera_present_def
        description_long_def empty_spec_def camera_only_spec_def)
  have "calculateQualityScore (Some empty_spec) \<le> calculateQualityScore (Some camera_only_spec)"
    using C6_quality_score_monotone_and_bounded [of empty_spec camera_only_spec] checks
    by simp
  moreover have "calculateQualityScore (Some empty_spec) = double 0.7"
    using checks by (simp add: score_present_table score_table_def double_0_7)
  moreover have "calculateQualityScore (Some camera_only_spec) = 0.75"
    using checks by (simp add: score_present_table score_table_def)
  ultimately show ?thesis
    using checks by simp
qed

text \<open>
  Claim C9.  Every specification that is supplied scores at least 0.7, the
  \<open>ACCEPTABLE\<close> threshold, also the one with no colour scheme, no texture layers, no
  camera and no description, which scores exactly 0.7.  So the scores lie in
  \<open>{0} \<union> [0.7, 1]\<close>: no input scores strictly between 0 and 0.7.  Here 0.7 is the
  number that the literal \<open>0.7\<close> denotes in the program, \<open>double 0.7\<close>.
\<close>

theorem C9_supplied_spec_scores_at_least_acceptable:
  "QUALITY_THRESHOLDS_ACCEPTABLE \<le> calculateQualityScore (Some s) \<and>
   double 0.7 \<le> calculateQualityScore (Some s) \<and>
   calculateQualityScore (Some empty_spec) = double 0.7 \<and>
   calculateQualityScore None = 0 \<and>
   calculateQualityScore x \<in> {0} \<union> {double 0.7 .. 1} \<and>
   calculateQualityScore x \<notin> {0 <..< double 0.7}"
proof -
  have present: "double 0.7 \<le> calculateQualityScore (Some t) \<and> calculateQualityScore (Some t) \<le> 1" for t
    by (rule score_present_range)
  have absent: "calculateQualityScore None = 0"
    by (simp add: calculateQualityScore_def)
  have empty: "calculateQualityScore (Some empty_spec) = double 0.7"
    by (simp add: score_present_table score_table_def double_0_7 color_scheme_present_def
        texture_layers_nonempty_def camera_present_def description_long_def empty_spec_def)
  have range: "calculateQualityScore x \<in> {0} \<union> {double 0.7 .. 1}"
  proof (cases x)
    case None
    then show ?thesis using absent by simp
  next
    case (Some t)
    then show ?thesis using present [of t] by simp
  qed
  have gap: "calculateQualityScore x \<notin> {0 <..< double 0.7}"
    using range by auto
  show ?thesis
    using present [of s] absent empty range gap
    by (simp add: QUALITY_THRESHOLDS_ACCEPTABLE_def)
qed

section \<open>Properties of the parameter extraction\<close>

lemma str_includes_sublist: "str_includes text keyword = sublist keyword text"
proof (induction "text")
  case Nil
  then show ?case by (simp add: sublist_def)
next
  case (Cons c cs)
  then show ?case by (simp add: sublist_Cons_right)
qed

text \<open>
  The code units that \<open>toLowerCase\<close> maps to a small ASCII letter are the letter and
  its capital.
\<close>

lemma toLowerCase_unit_preimage:
    "(toLowerCase_unit x = CHR ''a'') = (x = CHR ''a'' \<or> x = CHR ''A'')"
    "(toLowerCase_unit x = CHR ''b'') = (x = CHR ''b'' \<or> x = CHR ''B'')"
    "(toLowerCase_unit x = CHR ''c'') = (x = CHR ''c'' \<or> x = CHR ''C'')"
    "(toLowerCase_unit x = CHR ''d'') = (x = CHR ''d'' \<or> x = CHR ''D'')"
    "(toLowerCase_unit x = CHR ''e'') = (x = CHR ''e'' \<or> x = CHR ''E'')"
    "(toLowerCase_unit x = CHR ''f'') = (x = CHR ''f'' \<or> x = CHR ''F'')"
    "(toLowerCase_unit x = CHR ''g'') = (x = CHR ''g'' \<or> x = CHR ''G'')"
    "(toLowerCase_unit x = CHR ''h'') = (x = CHR ''h'' \<or> x = CHR ''H'')"
    "(toLowerCase_unit x = CHR ''i'') = (x = CHR ''i'' \<or> x = CHR ''I'')"
    "(toLowerCase_unit x = CHR ''j'') = (x = CHR ''j'' \<or> x = CHR ''J'')"
    "(toLowerCase_unit x = CHR ''k'') = (x = CHR ''k'' \<or> x = CHR ''K'')"
    "(toLowerCase_unit x = CHR ''l'') = (x = CHR ''l'' \<or> x = CHR ''L'')"
    "(toLowerCase_unit x = CHR ''m'') = (x = CHR ''m'' \<or> x = CHR ''M'')"
    "(toLowerCase_unit x = CHR ''n'') = (x = CHR ''n'' \<or> x = CHR ''N'')"
    "(toLowerCase_unit x = CHR ''o'') = (x = CHR ''o'' \<or> x = CHR ''O'')"
    "(toLowerCase_unit x = CHR ''p'') = (x = CHR ''p'' \<or> x = CHR ''P'')"
    "(toLowerCase_unit x = CHR ''q'') = (x = CHR ''q'' \<or> x = CHR ''Q'')"
    "(toLowerCase_unit x = CHR ''r'') = (x = CHR ''r'' \<or> x = CHR ''R'')"
    "(toLowerCase_unit x = CHR ''s'') = (x = CHR ''s'' \<or> x = CHR ''S'')"
    "(toLowerCase_unit x = CHR ''t'') = (x = CHR ''t'' \<or> x = CHR ''T'')"
    "(toLowerCase_unit x = CHR ''u'') = (x = CHR ''u'' \<or> x = CHR ''U'')"
    "(toLowerCase_unit x = CHR ''v'') = (x = CHR ''v'' \<or> x = CHR ''V'')"
    "(toLowerCase_unit x = CHR ''w'') = (x = CHR ''w'' \<or> x = CHR ''W'')"
    "(toLowerCase_unit x = CHR ''x'') = (x = CHR ''x'' \<or> x = CHR ''X'')"
    "(toLowerCase_unit x = CHR ''y'') = (x = CHR ''y'' \<or> x = CHR ''Y'')"
    "(toLowerCase_unit x = CHR ''z'') = (x = CHR ''z'' \<or> x = CHR ''Z'')"
  unfolding toLowerCase_unit_def upper_case_units_def lower_case_units_def
  by (simp_all split: if_splits)

lemma capital_of_small:
    "capital_of (CHR ''a'') = CHR ''A''"
    "capital_of (CHR ''b'') = CHR ''B''"
    "capital_of (CHR ''c'') = CHR ''C''"
    "capital_of (CHR ''d'') = CHR ''D''"
    "capital_of (CHR ''e'') = CHR ''E''"
    "capital_of (CHR ''f'') = CHR ''F''"
    "capital_of (CHR ''g'') = CHR ''G''"
    "capital_of (CHR ''h'') = CHR ''H''"
    "capital_of (CHR ''i'') = CHR ''I''"
    "capital_of (CHR ''j'') = CHR ''J''"
    "capital_of (CHR ''k'') = CHR ''K''"
    "capital_of (CHR ''l'') = CHR ''L''"
    "capital_of (CHR ''m'') = CHR ''M''"
    "capital_of (CHR ''n'') = CHR ''N''"
    "capital_of (CHR ''o'') = CHR ''O''"
    "capital_of (CHR ''p'') = CHR ''P''"
    "capital_of (CHR ''q'') = CHR ''Q''"
    "capital_of (CHR ''r'') = CHR ''R''"
    "capital_of (CHR ''s'') = CHR ''S''"
    "capital_of (CHR ''t'') = CHR ''T''"
    "capital_of (CHR ''u'') = CHR ''U''"
    "capital_of (CHR ''v'') = CHR ''V''"
    "capital_of (CHR ''w'') = CHR ''W''"
    "capital_of (CHR ''x'') = CHR ''X''"
    "capital_of (CHR ''y'') = CHR ''Y''"
    "capital_of (CHR ''z'') = CHR ''Z''"
  unfolding capital_of_def small_letters_def capital_letters_def
  by simp_all

lemma toLowerCase_unit_small:
  assumes "c \<in> set small_letters"
  shows "(toLowerCase_unit x = c) = (x = c \<or> x = capital_of c)"
proof -
  from assms have "c \<in> set ''abcdefghijklmnopqrstuvwxyz''"
    by (simp only: small_letters_def)
  then show ?thesis
    by (auto simp only: list.set insert_iff empty_iff toLowerCase_unit_preimage capital_of_small)
qed

lemma toLowerCase_same_ignoring_case:
  assumes "set keyword \<subseteq> set small_letters"
  shows "(toLowerCase v = keyword) = same_ignoring_case v keyword"
proof -
  have "(toLowerCase v = keyword) = list_all2 (=) (map toLowerCase_unit v) keyword"
    by (simp add: toLowerCase_def list.rel_eq)
  also have "\<dots> = list_all2 (\<lambda>x c. toLowerCase_unit x = c) v keyword"
    by (simp add: list_all2_map1)
  also have "\<dots> = list_all2 (\<lambda>x c. x = c \<or> x = capital_of c) v keyword"
    using assms by (intro list.rel_cong refl toLowerCase_unit_small) auto
  finally show ?thesis
    by (simp only: same_ignoring_case_def)
qed

lemma toLowerCase_append: "toLowerCase (a @ b) = toLowerCase a @ toLowerCase b"
  by (simp add: toLowerCase_def)

lemma sublist_toLowerCase:
  "sublist keyword (toLowerCase text) =
     (\<exists>variant. toLowerCase variant = keyword \<and> sublist variant text)"
proof
  assume "sublist keyword (toLowerCase text)"
  then obtain ps ss where "map toLowerCase_unit text = ps @ keyword @ ss"
    unfolding sublist_def toLowerCase_def by blast
  then have "\<exists>a r. text = a @ r \<and> ps = map toLowerCase_unit a
      \<and> keyword @ ss = map toLowerCase_unit r"
    by (simp only: map_eq_append_conv)
  then obtain a r where a: "text = a @ r" and r: "map toLowerCase_unit r = keyword @ ss"
    by metis
  from r have "\<exists>b c. r = b @ c \<and> keyword = map toLowerCase_unit b
      \<and> ss = map toLowerCase_unit c"
    by (simp only: map_eq_append_conv)
  then obtain b c where b: "r = b @ c" and k: "map toLowerCase_unit b = keyword"
    by metis
  have "toLowerCase b = keyword"
    using k by (simp add: toLowerCase_def)
  moreover have "sublist b text"
    unfolding sublist_def using a b by blast
  ultimately show "\<exists>variant. toLowerCase variant = keyword \<and> sublist variant text"
    by blast
next
  assume "\<exists>variant. toLowerCase variant = keyword \<and> sublist variant text"
  then obtain variant where v: "toLowerCase variant = keyword" and "sublist variant text"
    by blast
  then obtain ps ss where "text = ps @ variant @ ss"
    unfolding sublist_def by blast
  then have "toLowerCase text = toLowerCase ps @ keyword @ toLowerCase ss"
    using v by (simp add: toLowerCase_append)
  then show "sublist keyword (toLowerCase text)"
    unfolding sublist_def by blast
qed

lemma occurs_ignoring_case_code:
  assumes "set keyword \<subseteq> set small_letters"
  shows "occurs_ignoring_case keyword text = str_includes (toLowerCase text) keyword"
proof -
  have "str_includes (toLowerCase text) keyword
      = (\<exists>variant. toLowerCase variant = keyword \<and> sublist variant text)"
    by (simp only: str_includes_sublist sublist_toLowerCase)
  also have "\<dots> = (\<exists>variant. sublist variant text \<and> same_ignoring_case variant keyword)"
    using toLowerCase_same_ignoring_case [OF assms] by blast
  finally show ?thesis
    by (simp only: occurs_ignoring_case_def)
qed

lemma extractOccasion_chain:
  "extractOccasion text =
     (if str_includes (toLowerCase text) ''work'' then ''work''
      else if str_includes (toLowerCase text) ''business'' then ''business meeting''
      else if str_includes (toLowerCase text) ''meeting'' then ''business meeting''
      else if str_includes (toLowerCase text) ''casual'' then ''casual''
      else if str_includes (toLowerCase text) ''dinner'' then ''dinner''
      else if str_includes (toLowerCase text) ''date'' then ''date night''
      else if str_includes (toLowerCase text) ''party'' then ''party''
      else if str_includes (toLowerCase text) ''formal'' then ''formal event''
      else if str_includes (toLowerCase text) ''gala'' then ''evening gala''
      else ''casual'')"
  by (simp add: extractOccasion_def occasionMap_def)

lemma occurs_keywords:
    "occurs_ignoring_case ''work'' text = str_includes (toLowerCase text) ''work''"
    "occurs_ignoring_case ''business'' text = str_includes (toLowerCase text) ''business''"
    "occurs_ignoring_case ''meeting'' text = str_includes (toLowerCase text) ''meeting''"
    "occurs_ignoring_case ''casual'' text = str_includes (toLowerCase text) ''casual''"
    "occurs_ignoring_case ''dinner'' text = str_includes (toLowerCase text) ''dinner''"
    "occurs_ignoring_case ''date'' text = str_includes (toLowerCase text) ''date''"
    "occurs_ignoring_case ''party'' text = str_includes (toLowerCase text) ''party''"
    "occurs_ignoring_case ''formal'' text = str_includes (toLowerCase text) ''formal''"
    "occurs_ignoring_case ''gala'' text = str_includes (toLowerCase text) ''gala''"
  by (rule occurs_ignoring_case_code, simp add: small_letters_def)+

text \<open>
  Claim C10.  For every input text the extracted parameters have weather \<open>moderate\<close>,
  mood \<open>confident\<close> and style \<open>modern professional\<close>.  Only the occasion depends on
  the text: the keywords \<open>work\<close>, \<open>business\<close>, \<open>meeting\<close>, \<open>casual\<close>, \<open>dinner\<close>,
  \<open>date\<close>, \<open>party\<close>, \<open>formal\<close> and \<open>gala\<close> are looked for in this order, ignoring
  case, and the first one that occurs in the text decides; when none occurs, the
  occasion is \<open>casual\<close>.
\<close>

theorem C10_extracted_params:
  "OutfitParams.weather (extractParamsFromText text) = ''moderate'' \<and>
   mood (extractParamsFromText text) = ''confident'' \<and>
   style (extractParamsFromText text) = ''modern professional'' \<and>
   OutfitParams.occasion (extractParamsFromText text) = extractOccasion text \<and>
   extractOccasion text =
     (if occurs_ignoring_case ''work'' text then ''work''
      else if occurs_ignoring_case ''business'' text then ''business meeting''
      else if occurs_ignoring_case ''meeting'' text then ''business meeting''
      else if occurs_ignoring_case ''casual'' text then ''casual''
      else if occurs_ignoring_case ''dinner'' text then ''dinner''
      else if occurs_ignoring_case ''date'' text then ''date night''
      else if occurs_ignoring_case ''party'' text then ''party''
      else if occurs_ignoring_case ''formal'' text then ''formal event''
      else if occurs_ignoring_case ''gala'' text then ''evening gala''
      else ''casual'') \<and>
   ((\<forall>keyword \<in> set [''work'', ''business'', ''meeting'', ''casual'', ''dinner'', ''date'', ''party'', ''formal'', ''gala''].
       \<not> occurs_ignoring_case keyword text)
      \<longrightarrow> extractOccasion text = ''casual'')"
proof -
  have chain: "extractOccasion text =
     (if occurs_ignoring_case ''work'' text then ''work''
      else if occurs_ignoring_case ''business'' text then ''business meeting''
      else if occurs_ignoring_case ''meeting'' text then ''business meeting''
      else if occurs_ignoring_case ''casual'' text then ''casual''
      else if occurs_ignoring_case ''dinner'' text then ''dinner''
      else if occurs_ignoring_case ''date'' text then ''date night''
      else if occurs_ignoring_case ''party'' text then ''party''
      else if occurs_ignoring_case ''formal'' text then ''formal event''
      else if occurs_ignoring_case ''gala'' text then ''evening gala''
      else ''casual'')"
    unfolding extractOccasion_chain by (simp only: occurs_keywords)
  moreover have "extractOccasion text = ''casual''"
    if "\<forall>keyword \<in> set [''work'', ''business'', ''meeting'', ''casual'', ''dinner'', ''date'', ''party'', ''formal'', ''gala''].
       \<not> occurs_ignoring_case keyword text"
    unfolding chain using that by simp
  ultimately show ?thesis
    by (simp add: extractParamsFromText_def)
qed

text \<open>
  Instances: a text without any keyword; a keyword in capitals; a text with two keywords,
  where the first of the table wins over the first in the text; a keyword inside a
  longer word.
\<close>

lemma toLowerCase_samples:
    "toLowerCase ''Good Morning'' = ''good morning''"
    "toLowerCase ''Dress for the GALA'' = ''dress for the gala''"
    "toLowerCase ''Business Meeting'' = ''business meeting''"
    "toLowerCase ''FORMAL Dinner'' = ''formal dinner''"
    "toLowerCase ''Workout'' = ''workout''"
  by (simp_all add: toLowerCase_def toLowerCase_unit_def upper_case_units_def
      lower_case_units_def)

theorem C10_extracted_params_witness:
  "extractOccasion ''Good Morning'' = ''casual'' \<and>
   extractOccasion ''Dress for the GALA'' = ''evening gala'' \<and>
   extractOccasion ''Business Meeting'' = ''business meeting'' \<and>
   extractOccasion ''FORMAL Dinner'' = ''dinner'' \<and>
   extractOccasion ''Workout'' = ''work'' \<and>
   extractParamsFromText ''Dress for the GALA'' =
     \<lparr> OutfitParams.occasion = ''evening gala'', OutfitParams.weather = ''moderate'',
       mood = ''confident'', style = ''modern professional'' \<rparr>"
proof -
  have "extractOccasion ''Good Morning'' = ''casual''"
    using C10_extracted_params [of "''Good Morning''", THEN conjunct2, THEN conjunct2, THEN conjunct2,
      THEN conjunct2, THEN conjunct1]
    by (simp add: occurs_keywords toLowerCase_samples)
  moreover have "extractOccasion ''Dress for the GALA'' = ''evening gala''"
    using C10_extracted_params [of "''Dress for the GALA''", THEN conjunct2, THEN conjunct2, THEN conjunct2,
      THEN conjunct2, THEN conjunct1]
    by (simp add: occurs_keywords toLowerCase_samples)
  moreover have "extractOccasion ''Business Meeting'' = ''business meeting''"
    using C10_extracted_params [of "''Business Meeting''", THEN conjunct2, THEN conjunct2, THEN conjunct2,
      THEN conjunct2, THEN conjunct1]
    by (simp add: occurs_keywords toLowerCase_samples)
  moreover have "extractOccasion ''FORMAL Dinner'' = ''dinner''"
    using C10_extracted_params [of "''FORMAL Dinner''", THEN conjunct2, THEN conjunct2, THEN conjunct2,
      THEN conjunct2, THEN conjunct1]
    by (simp add: occurs_keywords toLowerCase_samples)
  moreover have "extractOccasion ''Workout'' = ''work''"
    using C10_extracted_params [of "''Workout''", THEN conjunct2, THEN conjunct2, THEN conjunct2,
      THEN conjunct2, THEN conjunct1]
    by (simp add: occurs_keywords toLowerCase_samples)
  ultimately show ?thesis
    by (simp add: extractParamsFromText_def)
qed

section \<open>Properties of the conversation history\<close>

lemma length_most_recent: "length (most_recent n xs) \<le> n"
  by (simp add: most_recent_def)

lemma most_recent_snoc:
  "(let history = most_recent 10 xs @ [x] in if length history > 10 then tl history else history)
     = most_recent 10 (xs @ [x])"
proof (cases "length xs < 10")
  case True
  then show ?thesis
    by (simp add: most_recent_def Let_def)
next
  case False
  then have len: "10 \<le> length xs"
    by simp
  then have nonempty: "drop (length xs - 10) xs \<noteq> []"
    by simp
  have "tl (drop (length xs - 10) xs @ [x]) = tl (drop (length xs - 10) xs) @ [x]"
    using nonempty by simp
  also have "tl (drop (length xs - 10) xs) = drop (Suc (length xs - 10)) xs"
    by (simp add: drop_Suc drop_tl)
  also have "Suc (length xs - 10) = Suc (length xs) - 10"
    using len by simp
  finally have "tl (drop (length xs - 10) xs @ [x]) = drop (Suc (length xs) - 10) xs @ [x]" .
  moreover have "length (drop (length xs - 10) xs @ [x]) > 10"
    using len by simp
  ultimately show ?thesis
    using len by (simp add: most_recent_def Let_def)
qed

lemma updateConversationHistory_same:
  "getConversationContext
     (updateConversationHistory histories userId userMessage assistantMessage now) userId
   = (let history = getConversationContext histories userId
          @ [\<lparr> user = userMessage, assistant = assistantMessage, timestamp = now \<rparr>]
      in if length history > 10 then tl history else history)"
  by (simp add: getConversationContext_def updateConversationHistory_def Let_def)

lemma updateConversationHistory_other:
  "other \<noteq> userId \<Longrightarrow>
   updateConversationHistory histories userId userMessage assistantMessage now other
     = histories other"
  by (simp add: updateConversationHistory_def Let_def)

lemma history_after_snoc:
  "history_after (updates @ [u]) = apply_update (history_after updates) u"
  by (simp add: history_after_def)

lemma history_after_most_recent:
  "getConversationContext (history_after updates) userId
     = most_recent 10 (exchanges_of userId updates)"
proof (induction updates rule: rev_induct)
  case Nil
  show ?case
    by (simp add: history_after_def getConversationContext_def exchanges_of_def most_recent_def)
next
  case (snoc u updates)
  obtain uid userMessage assistantMessage now where u: "u = (uid, userMessage, assistantMessage, now)"
    by (cases u) auto
  show ?case
  proof (cases "uid = userId")
    case True
    have "exchanges_of userId (updates @ [u]) = exchanges_of userId updates
            @ [\<lparr> user = userMessage, assistant = assistantMessage, timestamp = now \<rparr>]"
      using True u by (simp add: exchanges_of_def)
    moreover have "getConversationContext (history_after (updates @ [u])) userId
        = (let history = most_recent 10 (exchanges_of userId updates)
               @ [\<lparr> user = userMessage, assistant = assistantMessage, timestamp = now \<rparr>]
           in if length history > 10 then tl history else history)"
      using True u snoc.IH
      by (simp add: history_after_snoc apply_update_def updateConversationHistory_same)
    ultimately show ?thesis
      by (simp only: most_recent_snoc)
  next
    case False
    have "exchanges_of userId (updates @ [u]) = exchanges_of userId updates"
      using False u by (simp add: exchanges_of_def)
    moreover have "history_after (updates @ [u]) userId = history_after updates userId"
      using False u
      by (simp add: history_after_snoc apply_update_def updateConversationHistory_other)
    ultimately show ?thesis
      using snoc.IH by (simp add: getConversationContext_def)
  qed
qed

text \<open>
  Claim C8.  For every user id and after every sequence of updates of a freshly
  constructed assistant, the history stored for that user holds at most 10 exchanges, and
  they are the 10 most recent exchanges of that user.  Each update appends the new
  exchange to the history of its user and, when that makes more than 10, removes the
  oldest entry and nothing else; the histories of other users are not touched.
\<close>

theorem C8_history_bounded_most_recent:
  "length (getConversationContext (history_after updates) userId) \<le> 10 \<and>
   getConversationContext (history_after updates) userId
     = most_recent 10 (exchanges_of userId updates) \<and>
   getConversationContext
     (updateConversationHistory histories userId userMessage assistantMessage now) userId
     = (let history = getConversationContext histories userId
            @ [\<lparr> user = userMessage, assistant = assistantMessage, timestamp = now \<rparr>]
        in if length history > 10 then tl history else history) \<and>
   (other \<noteq> userId \<longrightarrow>
      updateConversationHistory histories userId userMessage assistantMessage now other
        = histories other)"
  using length_most_recent [of 10 "exchanges_of userId updates"]
    history_after_most_recent [of updates userId]
    updateConversationHistory_same [of histories userId userMessage assistantMessage now]
    updateConversationHistory_other [of other userId histories userMessage assistantMessage now]
  by simp

text \<open>
  An instance: eleven exchanges of user \<open>u1\<close>, with one of user \<open>u2\<close> in between.  The
  first exchange of \<open>u1\<close> is gone, the ten later ones are kept in order.
\<close>

theorem C8_history_bounded_most_recent_witness:
  "length (getConversationContext (history_after eleven_updates) ''u1'') = 10 \<and>
   map user (getConversationContext (history_after eleven_updates) ''u1'')
     = [''m1'', ''m2'', ''m3'', ''m4'', ''m5'', ''m6'', ''m7'', ''m8'', ''m9'', ''m10''] \<and>
   length (getConversationContext (history_after eleven_updates) ''u1'') \<le> 10 \<and>
   ''u2'' \<noteq> ''u1'' \<and>
   updateConversationHistory (history_after eleven_updates) ''u1'' ''m11'' ''a11'' ''t11'' ''u2''
     = history_after eleven_updates ''u2''"
  using C8_history_bounded_most_recent
    [of eleven_updates "''u1''" "history_after eleven_updates" "''m11''" "''a11''" "''t11''" "''u2''"]
  by (simp add: history_after_def eleven_updates_def apply_update_def
      updateConversationHistory_def getConversationContext_def most_recent_def
      exchanges_of_def)

section \<open>Properties of the specification generators\<close>

lemma estimateTokens_div: "estimateTokens s = (length s + 3) div 4"
proof -
  define n where "n = length s"
  define q where "q = (n + 3) div 4"
  have lower: "4 * q \<le> n + 3" and upper: "n + 3 < 4 * q + 4"
    unfolding q_def by presburger+
  have "\<lceil>real n / 4\<rceil> = int q"
  proof (rule ceiling_unique)
    have "real (4 * q) < real (n + 4)"
      using lower by (simp only: of_nat_less_iff)
    then show "of_int (int q) - 1 < real n / 4"
      by simp
    have "real n \<le> real (4 * q)"
      using upper by (simp only: of_nat_le_iff)
    then show "real n / 4 \<le> of_int (int q)"
      by simp
  qed
  then show ?thesis
    unfolding estimateTokens_def CHARS_PER_TOKEN_def n_def [symmetric] q_def by simp
qed

lemma length_spec_prompt:
  "length (spec_prompt params) =
     755 + length (OutfitParams.occasion params) + length (OutfitParams.weather params)
         + length (mood params) + length (style params)"
  by (simp add: spec_prompt_def)

lemma estimateTokens_spec_prompt_lower: "189 \<le> estimateTokens (spec_prompt params)"
  unfolding estimateTokens_div length_spec_prompt by simp

lemma try_failure_forwards_nothing:
  "generateOutfitSpecification_try JSON_parse generateContent startTime now prompt = (forwarded, Inl e)
     \<Longrightarrow> forwarded = []"
  unfolding generateOutfitSpecification_try_def
  by (auto split: sum.splits option.splits if_splits)

lemma generateOutfitSpecification_failure:
  assumes "snd (generateOutfitSpecification JSON_parse generateContent startTime now params) = Inl e"
  shows "fst (generateOutfitSpecification JSON_parse generateContent startTime now params)
           = [failure_record startTime now params]"
proof -
  obtain forwarded result where
      t: "generateOutfitSpecification_try JSON_parse generateContent startTime now
            (spec_prompt params) = (forwarded, result)"
    by (cases "generateOutfitSpecification_try JSON_parse generateContent startTime now
            (spec_prompt params)")
  show ?thesis
  proof (cases result)
    case (Inl error)
    with t have "forwarded = []"
      using try_failure_forwards_nothing by blast
    with t Inl show ?thesis
      by (simp add: generateOutfitSpecification_def failure_record_def)
  next
    case (Inr spec)
    with t assms show ?thesis
      by (simp add: generateOutfitSpecification_def)
  qed
qed

lemma generateOutfitSpecification_result:
  "snd (generateOutfitSpecification JSON_parse generateContent startTime now params) =
     (case generateContent AI_MODELS_GEMINI_FLASH (spec_prompt params) of
        Inl e \<Rightarrow> Inl e
      | Inr response \<Rightarrow>
          (case response_text response of
             None \<Rightarrow> Inl (Error ''No JSON returned'')
           | Some text \<Rightarrow>
               if text = [] then Inl (Error ''No JSON returned'')
               else (case JSON_parse text of
                       Inl e \<Rightarrow> Inl e
                     | Inr None \<Rightarrow> Inl (TypeError ''camera'')
                     | Inr (Some spec) \<Rightarrow> Inr spec)))"
  unfolding generateOutfitSpecification_def generateOutfitSpecification_try_def Let_def
  by (simp split: sum.splits option.splits)

text \<open>
  Claim C7 says that a response with missing or empty text makes the call fail with the
  message \<open>no JSON returned\<close>.  The call does fail, with a plain \<open>Error\<close>; the
  message is \<open>No JSON returned\<close> in \<open>generateOutfitSpecification\<close> and
  \<open>No JSON returned from FIBO engine\<close> in \<open>generateFIBOOutfit\<close>.  Amended: when
  the response text is missing or empty, the call throws an \<open>Error\<close> with that
  message of its own and returns no specification.
\<close>

theorem C7_missing_text_fails:
  "(generateContent AI_MODELS_GEMINI_FLASH (spec_prompt params) = Inr response \<and>
    (response_text response = None \<or> response_text response = Some [])
    \<longrightarrow> snd (generateOutfitSpecification JSON_parse generateContent startTime now params)
          = Inl (Error ''No JSON returned'')) \<and>
   (generateContent AI_MODELS_GEMINI_FLASH (fibo_prompt params) = Inr response \<and>
    (response_text response = None \<or> response_text response = Some [])
    \<longrightarrow> generateFIBOOutfit JSON_parse generateContent params
          = Inl (Error ''No JSON returned from FIBO engine''))"
  by (auto simp: generateOutfitSpecification_result generateFIBOOutfit_def)

text \<open>Instances: a response without text, and a response with the empty text.\<close>

theorem C7_missing_text_fails_witness:
  "model_no_text AI_MODELS_GEMINI_FLASH (spec_prompt sample_params)
     = Inr \<lparr> response_text = None, candidates = None \<rparr> \<and>
   snd (generateOutfitSpecification JSON_parse_sample model_no_text 0 5 sample_params)
     = Inl (Error ''No JSON returned'') \<and>
   model_returns [] AI_MODELS_GEMINI_FLASH (fibo_prompt sample_params)
     = Inr \<lparr> response_text = Some [], candidates = None \<rparr> \<and>
   generateFIBOOutfit JSON_parse_sample (model_returns []) sample_params
     = Inl (Error ''No JSON returned from FIBO engine'')"
  using C7_missing_text_fails [of model_no_text sample_params
      "\<lparr> response_text = None, candidates = None \<rparr>" JSON_parse_sample 0 5]
    C7_missing_text_fails [of "model_returns []" sample_params
      "\<lparr> response_text = Some [], candidates = None \<rparr>" JSON_parse_sample 0 5]
  by (simp add: model_no_text_def model_returns_def)

text \<open>
  The message of the claim is thrown by neither generator on a response without text.
\<close>

theorem C7_missing_text_fails_counterexample:
  "snd (generateOutfitSpecification JSON_parse_sample model_no_text 0 5 sample_params)
     \<noteq> Inl (Error ''no JSON returned'') \<and>
   generateFIBOOutfit JSON_parse_sample model_no_text sample_params
     \<noteq> Inl (Error ''no JSON returned'') \<and>
   snd (generateOutfitSpecification JSON_parse_sample model_no_text 0 5 sample_params)
     = Inl (Error ''No JSON returned'') \<and>
   generateFIBOOutfit JSON_parse_sample model_no_text sample_params
     = Inl (Error ''No JSON returned from FIBO engine'')"
  by (simp add: generateOutfitSpecification_result generateFIBOOutfit_def model_no_text_def)

text \<open>
  Claim C5 says that every successful call returns a specification with non-empty
  \<open>texture_layers\<close> and two valid hex colours.  The generator validates nothing: it
  succeeds exactly when the model resolves with a non-empty text that parses to a value
  other than \<open>null\<close>, and it returns that value as it is.  Amended: a successful call
  returns the value parsed from the response text, unchanged; so the returned
  specification conforms to the schema exactly when the parsed response does.
\<close>

theorem C5_success_returns_parsed_response:
  "(snd (generateOutfitSpecification JSON_parse generateContent startTime now params) = Inr spec)
   = (\<exists>response text.
        generateContent AI_MODELS_GEMINI_FLASH (spec_prompt params) = Inr response \<and>
        response_text response = Some text \<and> text \<noteq> [] \<and>
        JSON_parse text = Inr (Some spec))"
  unfolding generateOutfitSpecification_result
  by (auto split: sum.splits option.splits)

text \<open>An instance: the sample response is returned as parsed, and it conforms.\<close>

theorem C5_success_returns_parsed_response_witness:
  "snd (generateOutfitSpecification JSON_parse_sample (model_returns sample_text) 0 5 sample_params)
     = Inr sample_spec \<and> schema_conformant sample_spec"
proof -
  have "\<exists>response text.
        model_returns sample_text AI_MODELS_GEMINI_FLASH (spec_prompt sample_params) = Inr response \<and>
        response_text response = Some text \<and> text \<noteq> [] \<and>
        JSON_parse_sample text = Inr (Some sample_spec)"
    by (simp add: model_returns_def JSON_parse_sample_def sample_text_def)
  then have "snd (generateOutfitSpecification JSON_parse_sample (model_returns sample_text) 0 5
      sample_params) = Inr sample_spec"
    by (simp only: C5_success_returns_parsed_response)
  moreover have "schema_conformant sample_spec"
    by (simp add: schema_conformant_def sample_spec_def texture_layers_nonempty_def
        optional_hex_valid_def valid_hex_colour_def hex_digit_def)
  ultimately show ?thesis
    by simp
qed

text \<open>
  The claim as stated fails on the response text \<open>{}\<close>: the call succeeds, forwards a
  success record and returns a specification without texture layers and colours.
\<close>

theorem C5_schema_conformance_counterexample:
  "snd (generateOutfitSpecification JSON_parse_sample (model_returns ''{}'') 0 5 sample_params)
     = Inr empty_spec \<and>
   map success (fst (generateOutfitSpecification JSON_parse_sample (model_returns ''{}'') 0 5
     sample_params)) = [True] \<and>
   \<not> schema_conformant empty_spec \<and>
   \<not> texture_layers_nonempty empty_spec \<and>
   color_scheme empty_spec = None"
  by (simp add: generateOutfitSpecification_def generateOutfitSpecification_try_def
      model_returns_def JSON_parse_sample_def sample_text_def schema_conformant_def
      texture_layers_nonempty_def empty_spec_def)

section \<open>Properties of the image generator\<close>

lemma imagePrompt_defined:
  "(\<exists>prompt. imagePrompt spec = Inr prompt) = image_fields_present spec"
  unfolding imagePrompt_def image_fields_present_def
  by (simp split: option.splits)

lemma first_inline_image_none:
  "list_all (\<lambda>part. inlineData part = None) ps
     \<Longrightarrow> first_inline_image ps = Inl (Error ''No image data returned'')"
  by (induction ps) simp_all

lemma generateOutfitImage_returns:
  "imagePrompt spec = Inr prompt \<Longrightarrow> \<exists>url. generateOutfitImage generateContent spec = Inr url"
  unfolding generateOutfitImage_def
  by (simp split: sum.splits)

text \<open>
  Claim C3 says that \<open>generateOutfitImage\<close> returns a string for every specification
  and never lets an error through.  The prompt is built before the \<open>try\<close> block, and
  building it throws when the specification lacks \<open>camera\<close>, \<open>texture_layers\<close>,
  \<open>color_scheme\<close> or one of its two colours.  Amended: for every specification that has
  these fields and every behaviour of the model call, \<open>generateOutfitImage\<close> returns a
  string; when the call rejects, when the response has no inline image data, and on any
  other failure inside the \<open>try\<close> block, the string is the placeholder URL.
\<close>

theorem C3_image_generation_falls_back:
  "image_fields_present spec \<longrightarrow>
     (\<exists>prompt. imagePrompt spec = Inr prompt \<and>
        (\<exists>url. generateOutfitImage generateContent spec = Inr url) \<and>
        (\<forall>e. generateContent AI_MODELS_GEMINI_FLASH_IMAGE prompt = Inl e
           \<longrightarrow> generateOutfitImage generateContent spec = Inr placeholder_url) \<and>
        (\<forall>response. generateContent AI_MODELS_GEMINI_FLASH_IMAGE prompt = Inr response \<and>
             list_all (\<lambda>part. inlineData part = None) (first_candidate_parts response)
           \<longrightarrow> generateOutfitImage generateContent spec = Inr placeholder_url) \<and>
        (\<forall>e. generateOutfitImage_try generateContent prompt = Inl e
           \<longrightarrow> generateOutfitImage generateContent spec = Inr placeholder_url))"
proof
  assume "image_fields_present spec"
  then obtain prompt where p: "imagePrompt spec = Inr prompt"
    using imagePrompt_defined by blast
  have "\<exists>url. generateOutfitImage generateContent spec = Inr url"
    using p by (rule generateOutfitImage_returns)
  moreover have "generateOutfitImage generateContent spec = Inr placeholder_url"
    if "generateOutfitImage_try generateContent prompt = Inl e" for e
    using p that by (simp add: generateOutfitImage_def)
  moreover have "generateOutfitImage_try generateContent prompt = Inl e"
    if "generateContent AI_MODELS_GEMINI_FLASH_IMAGE prompt = Inl e" for e
    using that by (simp add: generateOutfitImage_try_def)
  moreover have "generateOutfitImage_try generateContent prompt = Inl (Error ''No image data returned'')"
    if "generateContent AI_MODELS_GEMINI_FLASH_IMAGE prompt = Inr response"
      and "list_all (\<lambda>part. inlineData part = None) (first_candidate_parts response)" for response
    using that by (simp add: generateOutfitImage_try_def first_inline_image_none)
  ultimately show "\<exists>prompt. imagePrompt spec = Inr prompt \<and>
        (\<exists>url. generateOutfitImage generateContent spec = Inr url) \<and>
        (\<forall>e. generateContent AI_MODELS_GEMINI_FLASH_IMAGE prompt = Inl e
           \<longrightarrow> generateOutfitImage generateContent spec = Inr placeholder_url) \<and>
        (\<forall>response. generateContent AI_MODELS_GEMINI_FLASH_IMAGE prompt = Inr response \<and>
             list_all (\<lambda>part. inlineData part = None) (first_candidate_parts response)
           \<longrightarrow> generateOutfitImage generateContent spec = Inr placeholder_url) \<and>
        (\<forall>e. generateOutfitImage_try generateContent prompt = Inl e
           \<longrightarrow> generateOutfitImage generateContent spec = Inr placeholder_url)"
    using p by blast
qed

text \<open>Instances: the model call rejects; the response has no candidates.\<close>

theorem C3_image_generation_falls_back_witness:
  "image_fields_present sample_spec \<and>
   generateOutfitImage model_rejects sample_spec = Inr placeholder_url \<and>
   generateOutfitImage model_no_text sample_spec = Inr placeholder_url"
proof -
  have present: "image_fields_present sample_spec"
    by (simp add: image_fields_present_def sample_spec_def)
  from C3_image_generation_falls_back [of sample_spec model_rejects] present
  have "generateOutfitImage model_rejects sample_spec = Inr placeholder_url"
    by (auto simp: model_rejects_def)
  moreover
  from C3_image_generation_falls_back [of sample_spec model_no_text] present
  have "generateOutfitImage model_no_text sample_spec = Inr placeholder_url"
    by (auto simp: model_no_text_def first_candidate_parts_def)
  ultimately show ?thesis
    using present by simp
qed

text \<open>
  The claim as stated fails on the specification without fields, which
  \<open>generateOutfitSpecification\<close> returns for the response text \<open>{}\<close>: the read of
  \<open>spec.camera.lighting\<close> throws, and the error reaches the caller.
\<close>

theorem C3_image_generation_throws_counterexample:
  "generateOutfitImage model_rejects empty_spec = Inl (TypeError ''lighting'') \<and>
   snd (generateOutfitSpecification JSON_parse_sample (model_returns ''{}'') 0 5 sample_params)
     = Inr empty_spec"
  by (simp add: generateOutfitImage_def imagePrompt_def empty_spec_def
      generateOutfitSpecification_def generateOutfitSpecification_try_def
      model_returns_def JSON_parse_sample_def sample_text_def)

section \<open>Properties of the batch runner\<close>

lemma Promise_all_map_success:
  "(\<And>x. x \<in> set xs \<Longrightarrow> g x = Inr (h x)) \<Longrightarrow> Promise_all (map g xs) = Inr (map h xs)"
  by (induction xs) simp_all

lemma length_slice: "length (slice xs i (i + n)) = min n (length xs - i)"
  by (simp add: slice_def)

lemma chunk_requests:
  "map (\<lambda>(k, params). F k params) (enumerate i (slice paramsArray i (i + n)))
     = map (\<lambda>k. F k (paramsArray ! k)) [i ..< min (i + n) (length paramsArray)]"
proof (rule nth_equalityI)
  show "length (map (\<lambda>(k, params). F k params) (enumerate i (slice paramsArray i (i + n))))
      = length (map (\<lambda>k. F k (paramsArray ! k)) [i ..< min (i + n) (length paramsArray)])"
    by (simp add: length_slice)
next
  fix j
  assume "j < length (map (\<lambda>(k, params). F k params) (enumerate i (slice paramsArray i (i + n))))"
  then have j: "j < n" "i + j < length paramsArray"
    by (auto simp: length_slice)
  then have "j < length (slice paramsArray i (i + n))"
    by (simp add: length_slice)
  moreover have "slice paramsArray i (i + n) ! j = paramsArray ! (i + j)"
    using j by (simp add: slice_def)
  moreover have "[i ..< min (i + n) (length paramsArray)] ! j = i + j"
    using j by simp
  moreover have "j < length [i ..< min (i + n) (length paramsArray)]"
    using j by simp
  ultimately show "map (\<lambda>(k, params). F k params) (enumerate i (slice paramsArray i (i + n))) ! j
      = map (\<lambda>k. F k (paramsArray ! k)) [i ..< min (i + n) (length paramsArray)] ! j"
    by (simp add: nth_enumerate_eq)
qed

lemma loop_success:
  assumes "\<And>k. batchSize * m \<le> k \<Longrightarrow> k < length paramsArray
     \<Longrightarrow> generateFIBOOutfit JSON_parse (generateContent k) (paramsArray ! k) = Inr (f k)"
    and "i = batchSize * m"
  shows "generateFIBOBatch_loop JSON_parse generateContent paramsArray i started results
     = (started @ map (\<lambda>j. slice paramsArray (batchSize * j) (batchSize * j + batchSize))
                    [m ..< (length paramsArray + 2) div 3],
        Inr (results @ map f [i ..< length paramsArray]))"
  using assms
proof (induction JSON_parse generateContent paramsArray i started results arbitrary: m
    rule: generateFIBOBatch_loop.induct)
  case (1 JSON_parse generateContent paramsArray i started results)
  show ?case
  proof (cases "i < length paramsArray")
    case False
    with "1.prems"(2) have "(length paramsArray + 2) div 3 \<le> m"
      by (simp add: batchSize_def)
    with False show ?thesis
      by (subst generateFIBOBatch_loop.simps) simp
  next
    case True
    define n where "n = min (i + batchSize) (length paramsArray)"
    have n: "i \<le> n" "n \<le> length paramsArray"
      unfolding n_def using True by simp_all
    have chunk: "Promise_all
        (map (\<lambda>(k, params). generateFIBOOutfit JSON_parse (generateContent k) params)
           (enumerate i (slice paramsArray i (i + batchSize))))
        = Inr (map f [i ..< n])"
      unfolding chunk_requests n_def [symmetric]
      by (rule Promise_all_map_success) (use n "1.prems" in auto)
    have later: "generateFIBOBatch_loop JSON_parse generateContent paramsArray (i + batchSize)
        (started @ [slice paramsArray i (i + batchSize)]) (results @ map f [i ..< n])
        = ((started @ [slice paramsArray i (i + batchSize)])
             @ map (\<lambda>j. slice paramsArray (batchSize * j) (batchSize * j + batchSize))
                 [Suc m ..< (length paramsArray + 2) div 3],
           Inr ((results @ map f [i ..< n]) @ map f [i + batchSize ..< length paramsArray]))"
      by (rule "1.IH" [OF True refl chunk]) (use "1.prems" in auto)
    have "[i ..< n] @ [i + batchSize ..< length paramsArray] = [i ..< length paramsArray]"
    proof (cases "i + batchSize \<le> length paramsArray")
      case True
      then have "n = i + batchSize"
        by (simp add: n_def)
      moreover have "[i ..< (i + batchSize) + (length paramsArray - (i + batchSize))]
          = [i ..< i + batchSize] @ [i + batchSize ..< (i + batchSize) + (length paramsArray - (i + batchSize))]"
        by (rule upt_add_eq_append) simp
      ultimately show ?thesis
        using True by simp
    next
      case False
      then have "n = length paramsArray"
        by (simp add: n_def)
      then show ?thesis
        using False by simp
    qed
    then have results: "map f [i ..< n] @ map f [i + batchSize ..< length paramsArray]
        = map f [i ..< length paramsArray]"
      by (simp only: map_append [symmetric])
    from True "1.prems"(2) have "m < (length paramsArray + 2) div 3"
      by (simp add: batchSize_def)
    then have "[m ..< (length paramsArray + 2) div 3]
        = m # [Suc m ..< (length paramsArray + 2) div 3]"
      by (rule upt_conv_Cons)
    then have chunks: "map (\<lambda>j. slice paramsArray (batchSize * j) (batchSize * j + batchSize))
          [m ..< (length paramsArray + 2) div 3]
        = slice paramsArray i (i + batchSize)
          # map (\<lambda>j. slice paramsArray (batchSize * j) (batchSize * j + batchSize))
              [Suc m ..< (length paramsArray + 2) div 3]"
      using "1.prems"(2) by (simp only: list.map)
    have "generateFIBOBatch_loop JSON_parse generateContent paramsArray i started results
        = generateFIBOBatch_loop JSON_parse generateContent paramsArray (i + batchSize)
            (started @ [slice paramsArray i (i + batchSize)]) (results @ map f [i ..< n])"
      using True chunk by (subst generateFIBOBatch_loop.simps) simp
    also note later
    finally show ?thesis
      unfolding chunks results [symmetric] by simp
  qed
qed

lemma concat_chunks:
  assumes "length xs \<le> 3 * n"
  shows "m \<le> n \<Longrightarrow> concat (map (\<lambda>j. slice xs (3 * j) (3 * j + 3)) [m ..< n]) = drop (3 * m) xs"
proof (induction "n - m" arbitrary: m)
  case 0
  then have "m = n"
    by simp
  with assms show ?case
    by simp
next
  case (Suc d)
  then have less: "m < n" and "d = n - Suc m" and "Suc m \<le> n"
    by simp_all
  then have "concat (map (\<lambda>j. slice xs (3 * j) (3 * j + 3)) [Suc m ..< n]) = drop (3 * Suc m) xs"
    using Suc.hyps(1) by blast
  moreover have "slice xs (3 * m) (3 * m + 3) @ drop (3 * Suc m) xs = drop (3 * m) xs"
  proof -
    have "slice xs (3 * m) (3 * m + 3) @ drop (3 * Suc m) xs
        = take 3 (drop (3 * m) xs) @ drop 3 (drop (3 * m) xs)"
      by (simp add: slice_def add.commute)
    then show ?thesis
      by (simp only: append_take_drop_id)
  qed
  ultimately show ?case
    using less by (simp add: upt_conv_Cons)
qed

lemma chunk_size:
  assumes "j < (length xs + 2) div 3"
  shows "0 < length (slice xs (3 * j) (3 * j + 3)) \<and> length (slice xs (3 * j) (3 * j + 3)) \<le> 3"
proof -
  from assms have "3 * j < length xs"
    by simp
  then show ?thesis
    by (simp add: length_slice)
qed

lemma loop_started:
  assumes "i = batchSize * m"
  shows "\<exists>n. m \<le> n \<and> n \<le> max m ((length paramsArray + 2) div 3) \<and>
     fst (generateFIBOBatch_loop JSON_parse generateContent paramsArray i started results)
       = started @ map (\<lambda>j. slice paramsArray (batchSize * j) (batchSize * j + batchSize))
                     [m ..< n]"
  using assms
proof (induction JSON_parse generateContent paramsArray i started results arbitrary: m
    rule: generateFIBOBatch_loop.induct)
  case (1 JSON_parse generateContent paramsArray i started results)
  show ?case
  proof (cases "i < length paramsArray")
    case False
    then have "fst (generateFIBOBatch_loop JSON_parse generateContent paramsArray i started results)
        = started @ map (\<lambda>j. slice paramsArray (batchSize * j) (batchSize * j + batchSize))
                      [m ..< m]"
      by (subst generateFIBOBatch_loop.simps) simp
    then show ?thesis
      by (intro exI [of _ m]) simp
  next
    case True
    with "1.prems" have m: "Suc m \<le> (length paramsArray + 2) div 3"
      by (simp add: batchSize_def)
    show ?thesis
    proof (cases "Promise_all
        (map (\<lambda>(k, params). generateFIBOOutfit JSON_parse (generateContent k) params)
           (enumerate i (slice paramsArray i (i + batchSize))))")
      case (Inl e)
      with True have "fst (generateFIBOBatch_loop JSON_parse generateContent paramsArray i started
          results) = started @ [slice paramsArray i (i + batchSize)]"
        by (subst generateFIBOBatch_loop.simps) simp
      then have "fst (generateFIBOBatch_loop JSON_parse generateContent paramsArray i started
          results)
          = started @ map (\<lambda>j. slice paramsArray (batchSize * j) (batchSize * j + batchSize))
                        [m ..< Suc m]"
        using "1.prems" by simp
      with m show ?thesis
        by (intro exI [of _ "Suc m"]) simp
    next
      case (Inr batchResults)
      have "i + batchSize = batchSize * Suc m"
        using "1.prems" by simp
      from "1.IH" [OF True refl Inr this] obtain n where
          n: "Suc m \<le> n" "n \<le> max (Suc m) ((length paramsArray + 2) div 3)"
          and log: "fst (generateFIBOBatch_loop JSON_parse generateContent paramsArray
              (i + batchSize) (started @ [slice paramsArray i (i + batchSize)])
              (results @ batchResults))
            = (started @ [slice paramsArray i (i + batchSize)])
              @ map (\<lambda>j. slice paramsArray (batchSize * j) (batchSize * j + batchSize))
                  [Suc m ..< n]"
        by blast
      from n have "[m ..< n] = m # [Suc m ..< n]"
        by (intro upt_conv_Cons) simp
      then have chunks: "map (\<lambda>j. slice paramsArray (batchSize * j) (batchSize * j + batchSize))
            [m ..< n]
          = slice paramsArray i (i + batchSize)
            # map (\<lambda>j. slice paramsArray (batchSize * j) (batchSize * j + batchSize))
                [Suc m ..< n]"
        using "1.prems" by (simp only: list.map)
      have "generateFIBOBatch_loop JSON_parse generateContent paramsArray i started results
          = generateFIBOBatch_loop JSON_parse generateContent paramsArray (i + batchSize)
              (started @ [slice paramsArray i (i + batchSize)]) (results @ batchResults)"
        using True Inr by (subst generateFIBOBatch_loop.simps) simp
      with log have "fst (generateFIBOBatch_loop JSON_parse generateContent paramsArray i started
          results)
          = started @ map (\<lambda>j. slice paramsArray (batchSize * j) (batchSize * j + batchSize))
                        [m ..< n]"
        unfolding chunks by simp
      with n m show ?thesis
        by (intro exI [of _ n]) simp
    qed
  qed
qed

text \<open>
  Claim C4.  When the generation of every request succeeds, the batch runner returns
  exactly as many results as there are requests, and the result at position \<open>k\<close> is
  the generation result of the request at position \<open>k\<close>.  The runner has then started
  the requests in consecutive chunks of three: chunk \<open>j\<close> is the slice of the input from
  \<open>3 * j\<close> to \<open>3 * j + 3\<close>, the last chunk may be shorter, the chunks together are
  the input, and seven requests are started in chunks of sizes 3, 3 and 1.  Whatever the
  requests do, the chunks started are the first ones of these.
\<close>

theorem C4_batch_preserves_order:
  "((\<forall>k < length paramsArray. \<exists>r.
        generateFIBOOutfit JSON_parse (generateContent k) (paramsArray ! k) = Inr r)
    \<longrightarrow> (\<exists>results.
          snd (generateFIBOBatch JSON_parse generateContent paramsArray) = Inr results \<and>
          length results = length paramsArray \<and>
          (\<forall>k < length paramsArray.
             generateFIBOOutfit JSON_parse (generateContent k) (paramsArray ! k)
               = Inr (results ! k))) \<and>
        fst (generateFIBOBatch JSON_parse generateContent paramsArray)
          = map (\<lambda>j. slice paramsArray (3 * j) (3 * j + 3))
              [0 ..< (length paramsArray + 2) div 3] \<and>
        concat (fst (generateFIBOBatch JSON_parse generateContent paramsArray)) = paramsArray \<and>
        (\<forall>chunk \<in> set (fst (generateFIBOBatch JSON_parse generateContent paramsArray)).
           0 < length chunk \<and> length chunk \<le> 3) \<and>
        (length paramsArray = 7
           \<longrightarrow> map length (fst (generateFIBOBatch JSON_parse generateContent paramsArray))
                 = [3, 3, 1])) \<and>
   (\<exists>n \<le> (length paramsArray + 2) div 3.
      fst (generateFIBOBatch JSON_parse generateContent paramsArray)
        = map (\<lambda>j. slice paramsArray (3 * j) (3 * j + 3)) [0 ..< n])"
proof (intro conjI impI)
  assume "\<forall>k < length paramsArray. \<exists>r.
        generateFIBOOutfit JSON_parse (generateContent k) (paramsArray ! k) = Inr r"
  then have "\<exists>f. \<forall>k < length paramsArray.
        generateFIBOOutfit JSON_parse (generateContent k) (paramsArray ! k) = Inr (f k)"
    by metis
  then obtain f where f: "\<And>k. k < length paramsArray \<Longrightarrow>
        generateFIBOOutfit JSON_parse (generateContent k) (paramsArray ! k) = Inr (f k)"
    by blast
  have "generateFIBOBatch JSON_parse generateContent paramsArray
      = ([] @ map (\<lambda>j. slice paramsArray (batchSize * j) (batchSize * j + batchSize))
                [0 ..< (length paramsArray + 2) div 3],
         Inr ([] @ map f [0 ..< length paramsArray]))"
    unfolding generateFIBOBatch_def by (rule loop_success) (simp_all add: f)
  then have run: "generateFIBOBatch JSON_parse generateContent paramsArray
      = (map (\<lambda>j. slice paramsArray (3 * j) (3 * j + 3)) [0 ..< (length paramsArray + 2) div 3],
         Inr (map f [0 ..< length paramsArray]))"
    by (simp add: batchSize_def)
  have "snd (generateFIBOBatch JSON_parse generateContent paramsArray)
      = Inr (map f [0 ..< length paramsArray])"
    by (simp add: run)
  moreover have "length (map f [0 ..< length paramsArray]) = length paramsArray"
    by simp
  moreover have "\<forall>k < length paramsArray.
      generateFIBOOutfit JSON_parse (generateContent k) (paramsArray ! k)
        = Inr (map f [0 ..< length paramsArray] ! k)"
    by (simp add: f)
  ultimately show "\<exists>results.
          snd (generateFIBOBatch JSON_parse generateContent paramsArray) = Inr results \<and>
          length results = length paramsArray \<and>
          (\<forall>k < length paramsArray.
             generateFIBOOutfit JSON_parse (generateContent k) (paramsArray ! k)
               = Inr (results ! k))"
    by blast
  show log: "fst (generateFIBOBatch JSON_parse generateContent paramsArray)
          = map (\<lambda>j. slice paramsArray (3 * j) (3 * j + 3))
              [0 ..< (length paramsArray + 2) div 3]"
    by (simp add: run)
  have "length paramsArray \<le> 3 * ((length paramsArray + 2) div 3)"
    by presburger
  then have "concat (map (\<lambda>j. slice paramsArray (3 * j) (3 * j + 3))
      [0 ..< (length paramsArray + 2) div 3]) = drop (3 * 0) paramsArray"
    by (rule concat_chunks) simp
  then show "concat (fst (generateFIBOBatch JSON_parse generateContent paramsArray)) = paramsArray"
    by (simp add: log)
  show "\<forall>chunk \<in> set (fst (generateFIBOBatch JSON_parse generateContent paramsArray)).
           0 < length chunk \<and> length chunk \<le> 3"
    unfolding log using chunk_size [of _ paramsArray] by auto
  show "map length (fst (generateFIBOBatch JSON_parse generateContent paramsArray)) = [3, 3, 1]"
    if "length paramsArray = 7"
  proof -
    have "[0 ..< (length paramsArray + 2) div 3] = [0, 1, 2]"
      using that by (simp add: upt_rec)
    with that show ?thesis
      unfolding log by (simp add: slice_def)
  qed
next
  from loop_started [of 0 0 paramsArray JSON_parse generateContent "[]" "[]"]
  show "\<exists>n \<le> (length paramsArray + 2) div 3.
      fst (generateFIBOBatch JSON_parse generateContent paramsArray)
        = map (\<lambda>j. slice paramsArray (3 * j) (3 * j + 3)) [0 ..< n]"
    by (auto simp: generateFIBOBatch_def batchSize_def)
qed

text \<open>
  Instances: seven requests, each answered with the sample response, are started in
  chunks of 3, 3 and 1; when the request at position 4 fails, the chunks of positions
  0 to 2 and 3 to 5 are started and the request at position 6 is not.
\<close>

lemma sample_fibo_outfit:
  "generateFIBOOutfit JSON_parse_sample (model_returns sample_text) params = Inr sample_fibo_spec"
  by (simp add: generateFIBOOutfit_def model_returns_def JSON_parse_sample_def sample_text_def
      attach_fibo_structured_params_def sample_spec_def sample_fibo_spec_def
      or_number_def or_string_def layer_material_def)

lemma rejected_fibo_outfit:
  "generateFIBOOutfit JSON_parse_sample model_rejects params = Inl (ApiError ''quota exceeded'')"
  by (simp add: generateFIBOOutfit_def model_rejects_def)

lemma batch_fails_at_four:
  "generateFIBOBatch JSON_parse_sample fails_at_four seven_requests
     = ([slice seven_requests 0 3, slice seven_requests 3 6], Inl (ApiError ''quota exceeded''))"
proof -
  have len: "length seven_requests = 7"
    by (simp add: seven_requests_def)
  have first: "Promise_all
      (map (\<lambda>(k, params). generateFIBOOutfit JSON_parse_sample (fails_at_four k) params)
         (enumerate 0 (slice seven_requests 0 3)))
      = Inr [sample_fibo_spec, sample_fibo_spec, sample_fibo_spec]"
    by (simp add: slice_def seven_requests_def fails_at_four_def sample_fibo_outfit)
  have second: "Promise_all
      (map (\<lambda>(k, params). generateFIBOOutfit JSON_parse_sample (fails_at_four k) params)
         (enumerate 3 (slice seven_requests 3 6)))
      = Inl (ApiError ''quota exceeded'')"
    by (simp add: slice_def seven_requests_def fails_at_four_def sample_fibo_outfit
        rejected_fibo_outfit)
  have "generateFIBOBatch_loop JSON_parse_sample fails_at_four seven_requests 3
      [slice seven_requests 0 3] [sample_fibo_spec, sample_fibo_spec, sample_fibo_spec]
      = ([slice seven_requests 0 3, slice seven_requests 3 6], Inl (ApiError ''quota exceeded''))"
    using len second by (subst generateFIBOBatch_loop.simps) (simp add: batchSize_def)
  then show ?thesis
    unfolding generateFIBOBatch_def
    using len first by (subst generateFIBOBatch_loop.simps) (simp add: batchSize_def)
qed

theorem C4_batch_preserves_order_witness:
  "length seven_requests = 7 \<and>
   snd (generateFIBOBatch JSON_parse_sample (\<lambda>k. model_returns sample_text) seven_requests)
     = Inr (replicate 7 sample_fibo_spec) \<and>
   map length (fst (generateFIBOBatch JSON_parse_sample (\<lambda>k. model_returns sample_text)
     seven_requests)) = [3, 3, 1] \<and>
   concat (fst (generateFIBOBatch JSON_parse_sample (\<lambda>k. model_returns sample_text)
     seven_requests)) = seven_requests \<and>
   snd (generateFIBOBatch JSON_parse_sample fails_at_four seven_requests)
     = Inl (ApiError ''quota exceeded'') \<and>
   map length (fst (generateFIBOBatch JSON_parse_sample fails_at_four seven_requests)) = [3, 3]"
proof -
  have len: "length seven_requests = 7"
    by (simp add: seven_requests_def)
  have all: "\<forall>k < length seven_requests. \<exists>r.
      generateFIBOOutfit JSON_parse_sample (model_returns sample_text) (seven_requests ! k) = Inr r"
    by (simp add: sample_fibo_outfit)
  note claim = C4_batch_preserves_order
    [of seven_requests JSON_parse_sample "\<lambda>k. model_returns sample_text", THEN conjunct1,
     THEN mp, OF all]
  from claim obtain results where
      r: "snd (generateFIBOBatch JSON_parse_sample (\<lambda>k. model_returns sample_text) seven_requests)
            = Inr results"
      and l: "length results = length seven_requests"
      and n: "\<forall>k < length seven_requests.
            generateFIBOOutfit JSON_parse_sample (model_returns sample_text) (seven_requests ! k)
              = Inr (results ! k)"
    by blast
  from n have "\<forall>k < 7. results ! k = sample_fibo_spec"
    by (simp add: sample_fibo_outfit len)
  with l len have "results = replicate 7 sample_fibo_spec"
    by (intro nth_equalityI) simp_all
  moreover from claim len
  have "map length (fst (generateFIBOBatch JSON_parse_sample (\<lambda>k. model_returns sample_text)
     seven_requests)) = [3, 3, 1]"
    by blast
  moreover from claim
  have "concat (fst (generateFIBOBatch JSON_parse_sample (\<lambda>k. model_returns sample_text)
     seven_requests)) = seven_requests"
    by blast
  moreover have "length (slice seven_requests 0 3) = 3" "length (slice seven_requests 3 6) = 3"
    by (simp_all add: slice_def len)
  ultimately show ?thesis
    using r len by (simp add: batch_fails_at_four)
qed

section \<open>Properties of the failure telemetry\<close>

lemma processUserRequest_failure:
  assumes "snd (snd (processUserRequest JSON_parse JSON_stringify generateContent
      produceUserInteraction produceOutfitGeneration startTime now isoNow requestId voice
      request)) = Inl e"
  shows "fst (snd (processUserRequest JSON_parse JSON_stringify generateContent
      produceUserInteraction produceOutfitGeneration startTime now isoNow requestId voice
      request))
    = [\<lparr> input_tokens = 0, output_tokens = 0, generation_ms = now - startTime,
         model = ''gemini-2.5-flash'', camera_angle = None, lighting = None,
         success = False, quality_score = None,
         user_id = Some (request_user_id request), endpoint = ''outfit_generation'' \<rparr>]"
proof -
  obtain voice' result where
      t: "processUserRequest_try JSON_parse JSON_stringify generateContent
            produceUserInteraction produceOutfitGeneration startTime now isoNow requestId voice
            request = (voice', result)"
    by (cases "processUserRequest_try JSON_parse JSON_stringify generateContent
            produceUserInteraction produceOutfitGeneration startTime now isoNow requestId voice
            request")
  show ?thesis
  proof (cases result)
    case (Inl error)
    with t show ?thesis
      by (simp add: processUserRequest_def)
  next
    case (Inr response)
    with t assms show ?thesis
      by (simp add: processUserRequest_def)
  qed
qed

lemma processUserRequest_text_generation_fails:
  assumes "produceUserInteraction = None"
    and "request_input request = StringInput s"
    and "request_params request = Some params"
    and "generateFIBOOutfit JSON_parse (generateContent 0) params = Inl e"
  shows "snd (snd (processUserRequest JSON_parse JSON_stringify generateContent
      produceUserInteraction produceOutfitGeneration startTime now isoNow requestId voice
      request)) = Inl e"
  using assms
  by (simp add: processUserRequest_def processUserRequest_try_def processTextInput_def
      split: InputType.splits)

text \<open>
  Claim C2 says that the record forwarded for a failed specification generation has
  \<open>input_tokens = 0\<close>, \<open>output_tokens = 0\<close> and \<open>success = false\<close>.  The \<open>catch\<close>
  block of \<open>generateOutfitSpecification\<close> sets \<open>input_tokens\<close> to the token estimate
  of the prompt, which was built and sent before the failure; the record with both
  counts at 0 is the one of the request router.  Amended: whenever
  \<open>generateOutfitSpecification\<close> fails, exactly one record is forwarded for the call;
  it has \<open>success = false\<close>, \<open>output_tokens = 0\<close> and \<open>input_tokens\<close> equal to the
  prompt length divided by 4, rounded up, which is at least 189 and never 0.  Whenever
  \<open>processUserRequest\<close> fails, as it does when the specification generation of a text
  request fails, exactly one record is forwarded for the request, and it has
  \<open>input_tokens = 0\<close>, \<open>output_tokens = 0\<close> and \<open>success = false\<close>.
\<close>

theorem C2_failure_telemetry:
  "(snd (generateOutfitSpecification JSON_parse generateContent startTime now params) = Inl e
    \<longrightarrow> (\<exists>r. fst (generateOutfitSpecification JSON_parse generateContent startTime now params)
             = [r]
          \<and> success r = False
          \<and> output_tokens r = 0
          \<and> input_tokens r = estimateTokens (spec_prompt params)
          \<and> input_tokens r = (length (spec_prompt params) + 3) div 4
          \<and> 189 \<le> input_tokens r)) \<and>
   (snd (snd (processUserRequest JSON_parse JSON_stringify calls produceUserInteraction
       produceOutfitGeneration startTime now isoNow requestId voice request)) = Inl e
    \<longrightarrow> (\<exists>r. fst (snd (processUserRequest JSON_parse JSON_stringify calls
             produceUserInteraction produceOutfitGeneration startTime now isoNow requestId
             voice request)) = [r]
          \<and> success r = False
          \<and> output_tokens r = 0
          \<and> input_tokens r = 0)) \<and>
   (produceUserInteraction = None \<and> request_input request = StringInput s \<and>
    request_params request = Some params \<and>
    generateFIBOOutfit JSON_parse (calls 0) params = Inl e
    \<longrightarrow> snd (snd (processUserRequest JSON_parse JSON_stringify calls produceUserInteraction
          produceOutfitGeneration startTime now isoNow requestId voice request)) = Inl e)"
proof (intro conjI impI)
  assume "snd (generateOutfitSpecification JSON_parse generateContent startTime now params) = Inl e"
  then have "fst (generateOutfitSpecification JSON_parse generateContent startTime now params)
           = [failure_record startTime now params]"
    by (rule generateOutfitSpecification_failure)
  moreover have "189 \<le> input_tokens (failure_record startTime now params)"
    using estimateTokens_spec_prompt_lower by (simp add: failure_record_def)
  ultimately show "\<exists>r. fst (generateOutfitSpecification JSON_parse generateContent startTime now params)
             = [r]
          \<and> success r = False
          \<and> output_tokens r = 0
          \<and> input_tokens r = estimateTokens (spec_prompt params)
          \<and> input_tokens r = (length (spec_prompt params) + 3) div 4
          \<and> 189 \<le> input_tokens r"
    by (simp add: failure_record_def estimateTokens_div)
next
  assume "snd (snd (processUserRequest JSON_parse JSON_stringify calls produceUserInteraction
       produceOutfitGeneration startTime now isoNow requestId voice request)) = Inl e"
  then show "\<exists>r. fst (snd (processUserRequest JSON_parse JSON_stringify calls
             produceUserInteraction produceOutfitGeneration startTime now isoNow requestId
             voice request)) = [r]
          \<and> success r = False
          \<and> output_tokens r = 0
          \<and> input_tokens r = 0"
    by (simp add: processUserRequest_failure)
next
  assume "produceUserInteraction = None \<and> request_input request = StringInput s \<and>
    request_params request = Some params \<and>
    generateFIBOOutfit JSON_parse (calls 0) params = Inl e"
  then show "snd (snd (processUserRequest JSON_parse JSON_stringify calls produceUserInteraction
          produceOutfitGeneration startTime now isoNow requestId voice request)) = Inl e"
    using processUserRequest_text_generation_fails by blast
qed

text \<open>
  The claim as stated fails when the model call rejects for the sample parameters: the
  forwarded record has \<open>input_tokens = 201\<close>.
\<close>

lemma spec_prompt_sample_tokens: "estimateTokens (spec_prompt sample_params) = 201"
  unfolding estimateTokens_div length_spec_prompt by (simp add: sample_params_def)

theorem C2_failure_telemetry_counterexample:
  "snd (generateOutfitSpecification JSON_parse_sample model_rejects 0 5 sample_params)
     = Inl (ApiError ''quota exceeded'') \<and>
   map input_tokens (fst (generateOutfitSpecification JSON_parse_sample model_rejects 0 5 sample_params))
     = [201] \<and>
   map output_tokens (fst (generateOutfitSpecification JSON_parse_sample model_rejects 0 5 sample_params))
     = [0] \<and>
   map success (fst (generateOutfitSpecification JSON_parse_sample model_rejects 0 5 sample_params))
     = [False]"
  by (simp add: generateOutfitSpecification_def generateOutfitSpecification_try_def
      model_rejects_def spec_prompt_sample_tokens)

text \<open>
  Instances of the amended claim: the model resolves without a text for
  \<open>generateOutfitSpecification\<close>; the model call of the specification rejects inside
  a text request to the router.
\<close>

theorem C2_failure_telemetry_witness:
  "snd (generateOutfitSpecification JSON_parse_sample model_no_text 0 5 sample_params)
     = Inl (Error ''No JSON returned'') \<and>
   map success (fst (generateOutfitSpecification JSON_parse_sample model_no_text 0 5 sample_params))
     = [False] \<and>
   map output_tokens (fst (generateOutfitSpecification JSON_parse_sample model_no_text 0 5
     sample_params)) = [0] \<and>
   map input_tokens (fst (generateOutfitSpecification JSON_parse_sample model_no_text 0 5
     sample_params)) = [201] \<and>
   generateFIBOOutfit JSON_parse_sample model_rejects sample_params
     = Inl (ApiError ''quota exceeded'') \<and>
   snd (snd (processUserRequest JSON_parse_sample JSON_stringify_sample (\<lambda>k. model_rejects)
       None None 0 5 ''2025-01-01T00:00:00.000Z'' ''req_1'' sample_assistant sample_request))
     = Inl (ApiError ''quota exceeded'') \<and>
   map input_tokens (fst (snd (processUserRequest JSON_parse_sample JSON_stringify_sample
       (\<lambda>k. model_rejects) None None 0 5 ''2025-01-01T00:00:00.000Z'' ''req_1''
       sample_assistant sample_request))) = [0] \<and>
   map output_tokens (fst (snd (processUserRequest JSON_parse_sample JSON_stringify_sample
       (\<lambda>k. model_rejects) None None 0 5 ''2025-01-01T00:00:00.000Z'' ''req_1''
       sample_assistant sample_request))) = [0] \<and>
   map success (fst (snd (processUserRequest JSON_parse_sample JSON_stringify_sample
       (\<lambda>k. model_rejects) None None 0 5 ''2025-01-01T00:00:00.000Z'' ''req_1''
       sample_assistant sample_request))) = [False]"
proof -
  note claim = C2_failure_telemetry
    [of JSON_parse_sample _ 0 5 sample_params _ JSON_stringify_sample "\<lambda>k. model_rejects"
        None None "''2025-01-01T00:00:00.000Z''" "''req_1''" sample_assistant sample_request
        "''I need a professional outfit for a business meeting''"]
  have failed: "snd (generateOutfitSpecification JSON_parse_sample model_no_text 0 5 sample_params)
     = Inl (Error ''No JSON returned'')"
    by (simp add: generateOutfitSpecification_result model_no_text_def)
  with claim [of model_no_text "Error ''No JSON returned''"]
  obtain r where
      "fst (generateOutfitSpecification JSON_parse_sample model_no_text 0 5 sample_params) = [r]"
      and "success r = False" and "output_tokens r = 0"
      and "input_tokens r = estimateTokens (spec_prompt sample_params)"
    by blast
  with failed have generator:
    "snd (generateOutfitSpecification JSON_parse_sample model_no_text 0 5 sample_params)
       = Inl (Error ''No JSON returned'') \<and>
     map success (fst (generateOutfitSpecification JSON_parse_sample model_no_text 0 5
       sample_params)) = [False] \<and>
     map output_tokens (fst (generateOutfitSpecification JSON_parse_sample model_no_text 0 5
       sample_params)) = [0] \<and>
     map input_tokens (fst (generateOutfitSpecification JSON_parse_sample model_no_text 0 5
       sample_params)) = [201]"
    by (simp add: spec_prompt_sample_tokens)
  have rejected: "generateFIBOOutfit JSON_parse_sample model_rejects sample_params
      = Inl (ApiError ''quota exceeded'')"
    by (simp add: generateFIBOOutfit_def model_rejects_def)
  have request: "request_input sample_request
        = StringInput ''I need a professional outfit for a business meeting''"
      "request_params sample_request = Some sample_params"
    by (simp_all add: sample_request_def)
  from claim [of model_no_text "ApiError ''quota exceeded''"] rejected request
  have router_failed: "snd (snd (processUserRequest JSON_parse_sample JSON_stringify_sample
       (\<lambda>k. model_rejects) None None 0 5 ''2025-01-01T00:00:00.000Z'' ''req_1''
       sample_assistant sample_request)) = Inl (ApiError ''quota exceeded'')"
    by blast
  with claim [of model_no_text "ApiError ''quota exceeded''"]
  obtain q where
      "fst (snd (processUserRequest JSON_parse_sample JSON_stringify_sample
         (\<lambda>k. model_rejects) None None 0 5 ''2025-01-01T00:00:00.000Z'' ''req_1''
         sample_assistant sample_request)) = [q]"
      and "success q = False" and "output_tokens q = 0" and "input_tokens q = 0"
    by blast
  with generator rejected router_failed show ?thesis
    by simp
qed

end
